theory Spec2Isabelle
  imports Main "HOL-Library.Sublist" "HOL-Library.Word"
begin

section \<open>JavaScript values, truthiness and string conversion\<close>

text \<open>
  The download methods destructure an untyped configuration object
  (\<^verbatim>\<open>{ videoUrl, maxHeight, outputPath }\<close>) and only ever test its fields for
  truthiness and interpolate them into template literals. A field is therefore one of the
  JavaScript primitives below. \<open>JNum\<close> carries an integer from \<open>-2^53\<close> to \<open>2^53 - 1\<close>, as a
  signed 54-bit word: every such integer is a JavaScript number, held exactly and printed in
  plain decimal. \<open>JNaN\<close> is the one falsy number besides zero. Fractional numbers and
  numbers outside that range are not values of this type.
\<close>

datatype js_value = JUndefined | JNull | JBool bool | JNum "54 word" | JNaN | JStr string

fun truthy :: "js_value \<Rightarrow> bool" where
  "truthy JUndefined = False"
| "truthy JNull = False"
| "truthy (JBool b) = b"
| "truthy (JNum n) = (n \<noteq> 0)"
| "truthy JNaN = False"
| "truthy (JStr s) = (s \<noteq> [])"

definition digit_char :: "nat \<Rightarrow> char" where
  "digit_char d =
     (if d = 0 then CHR ''0'' else if d = 1 then CHR ''1'' else if d = 2 then CHR ''2''
      else if d = 3 then CHR ''3'' else if d = 4 then CHR ''4'' else if d = 5 then CHR ''5''
      else if d = 6 then CHR ''6'' else if d = 7 then CHR ''7'' else if d = 8 then CHR ''8''
      else CHR ''9'')"

fun nat_to_string :: "nat \<Rightarrow> string" where
  "nat_to_string n =
     (if n < 10 then [digit_char n] else nat_to_string (n div 10) @ [digit_char (n mod 10)])"

definition int_to_string :: "int \<Rightarrow> string" where
  "int_to_string i = (if i < 0 then ''-'' @ nat_to_string (nat (- i)) else nat_to_string (nat i))"

text \<open>\<open>to_string v\<close> is what a template literal \<^verbatim>\<open>`${v}`\<close> inserts.\<close>

fun to_string :: "js_value \<Rightarrow> string" where
  "to_string JUndefined = ''undefined''"
| "to_string JNull = ''null''"
| "to_string (JBool b) = (if b then ''true'' else ''false'')"
| "to_string (JNum n) = int_to_string (sint n)"
| "to_string JNaN = ''NaN''"
| "to_string (JStr s) = s"

definition newline :: string where
  "newline = [CHR 0x0A]"

fun join_space :: "string list \<Rightarrow> string" where
  "join_space [] = []"
| "join_space [x] = x"
| "join_space (x # y # ys) = x @ '' '' @ join_space (y # ys)"

section \<open>Errors, subprocesses and the trace of effects\<close>

text \<open>
  Every error the classes throw themselves is a plain \<^verbatim>\<open>new Error(message)\<close>. The runtime
  adds \<open>ReferenceError\<close>, raised when a module calls an identifier it never bound.
\<close>

datatype error = Error string | ReferenceError string

fun message :: "error \<Rightarrow> string" where
  "message (Error m) = m"
| "message (ReferenceError m) = m"

text \<open>
  A subprocess, as the \<^verbatim>\<open>'data'\<close> and \<^verbatim>\<open>'close'\<close> handlers see it: the chunks it writes to
  its two streams, in order, and the code passed to \<^verbatim>\<open>'close'\<close> (\<open>None\<close> is JavaScript's
  \<^verbatim>\<open>null\<close>, the code of a process ended by a signal). Every launched process is taken to
  close; a process that never closes leaves the promise pending and is not represented.
\<close>

datatype chunk = Stdout string | Stderr string

record proc =
  chunks :: "chunk list"
  exit_code :: "int option"

fun code_to_string :: "int option \<Rightarrow> string" where
  "code_to_string None = ''null''"
| "code_to_string (Some c) = int_to_string c"

text \<open>
  The effects of a call, in the order they happen: a subprocess launched with a command
  line, a \<^verbatim>\<open>setTimeout\<close> delay awaited (milliseconds), a line written with
  \<^verbatim>\<open>console.log\<close> or \<^verbatim>\<open>console.error\<close> (several arguments are printed separated
  by one space).
\<close>

datatype event = Exec string | Sleep nat | ConsoleLog string | ConsoleError string

type_synonym trace = "event list"

fun is_exec :: "event \<Rightarrow> bool" where
  "is_exec (Exec c) = True"
| "is_exec e = False"

fun is_console :: "event \<Rightarrow> bool" where
  "is_console (ConsoleLog s) = True"
| "is_console (ConsoleError s) = True"
| "is_console e = False"

definition launches :: "trace \<Rightarrow> event list" where
  "launches t = filter is_exec t"

definition timeline :: "trace \<Rightarrow> event list" where
  "timeline t = filter (\<lambda>e. \<not> is_console e) t"

text \<open>
  The launcher is the environment behind \<^verbatim>\<open>child_process.exec\<close>: it decides what the
  \<open>n\<close>-th process launched during a call does. \<open>exec\<close> records the launch and hands back
  that process.
\<close>

type_synonym launcher = "nat \<Rightarrow> proc"

definition exec :: "launcher \<Rightarrow> string \<Rightarrow> trace \<Rightarrow> proc \<times> trace" where
  "exec l command t = (l (length (launches t)), t @ [Exec command])"

definition console_log :: "string \<Rightarrow> trace \<Rightarrow> trace" where
  "console_log s t = t @ [ConsoleLog s]"

definition console_error :: "string \<Rightarrow> trace \<Rightarrow> trace" where
  "console_error s t = t @ [ConsoleError s]"

definition setTimeout :: "nat \<Rightarrow> trace \<Rightarrow> trace" where
  "setTimeout ms t = t @ [Sleep ms]"

text \<open>
  The \<^verbatim>\<open>'data'\<close> handlers of the retrying methods: each chunk is appended to
  \<open>outputLog\<close> or \<open>errorLog\<close> and echoed to the console. Both accumulators are locals of
  the promise executor, so they start empty at every launch.
\<close>

fun on_data :: "chunk \<Rightarrow> string \<times> string \<times> trace \<Rightarrow> string \<times> string \<times> trace" where
  "on_data (Stdout d) (outputLog, errorLog, t) = (outputLog @ d, errorLog, console_log d t)"
| "on_data (Stderr d) (outputLog, errorLog, t) = (outputLog, errorLog @ d, console_error d t)"

definition stream_output :: "proc \<Rightarrow> trace \<Rightarrow> string \<times> string \<times> trace" where
  "stream_output p t = fold on_data (chunks p) ([], [], t)"

text \<open>The handlers of the basic playlist method only echo.\<close>

fun echo_data :: "chunk \<Rightarrow> trace \<Rightarrow> trace" where
  "echo_data (Stdout d) t = console_log d t"
| "echo_data (Stderr d) t = console_error d t"

section \<open>Configuration objects and command lines\<close>

text \<open>\<^verbatim>\<open>outputPath || this.basePath\<close>, as it is interpolated into the command.\<close>

definition downloadPath :: "js_value \<Rightarrow> string \<Rightarrow> string" where
  "downloadPath outputPath basePath = (if truthy outputPath then to_string outputPath else basePath)"

text \<open>
  The format string of every \<open>downloadSingleVideo\<close> and of the retrying \<open>downloadPlaylist\<close>
  (youtube-downloader.js 116-118 and 362-364, youtube-single-downloader.js 21-23,
  youtube-playlist-downloader.js 76-78).
\<close>

definition formatString :: "js_value \<Rightarrow> string" where
  "formatString maxHeight =
     (if truthy maxHeight
      then ''bestvideo[height<='' @ to_string maxHeight @ '']+bestaudio/best[height<=''
             @ to_string maxHeight @ '']/best''
      else ''bestvideo+bestaudio/best'')"

text \<open>
  The format string of the basic, non-retrying \<open>downloadPlaylist\<close>
  (youtube-downloader.js 71-73, youtube-playlist-downloader.js 212-214).
\<close>

definition basic_formatString :: "js_value \<Rightarrow> string" where
  "basic_formatString maxHeight =
     (if truthy maxHeight
      then ''bestvideo[height<='' @ to_string maxHeight @ '']+bestaudio/best''
      else ''bestvideo+bestaudio/best'')"

text \<open>The configuration objects the methods destructure.\<close>

record video_config =
  videoUrl :: js_value
  maxHeight :: js_value
  outputPath :: js_value

record playlist_config =
  playlistUrl :: js_value
  maxHeight :: js_value
  outputPath :: js_value

text \<open>The three \<open>defaultOptions\<close> lists, joined with spaces by the constructors.\<close>

definition base_defaultOptions :: string where
  "base_defaultOptions = join_space
     [''--no-check-certificates'', ''--geo-bypass'', ''--format-sort-force'',
      ''--ignore-errors'', ''--no-warnings'', ''--extractor-retries 3'']"

definition single_hardened_defaultOptions :: string where
  \<open>single_hardened_defaultOptions = join_space
     [''--no-check-certificates'', ''--geo-bypass'', ''--format-sort-force'',
      ''--ignore-errors'', ''--no-warnings'', ''--extractor-retries 3'',
      ''--user-agent "Mozilla/5.0 (Windows NT 10.0; Win64; x64) AppleWebKit/537.36 (KHTML, like Gecko) Chrome/120.0.0.0 Safari/537.36"'',
      ''--add-header "Accept-Language: en-US,en;q=0.9"'',
      ''--sleep-interval 2'', ''--max-sleep-interval 4'', ''--fragment-retries 10'',
      ''--force-ipv4'', ''--no-playlist'', ''--merge-output-format mp4'']\<close>

definition playlist_hardened_defaultOptions :: string where
  \<open>playlist_hardened_defaultOptions = join_space
     [''--no-check-certificates'', ''--geo-bypass'', ''--format-sort-force'',
      ''--ignore-errors'', ''--no-warnings'', ''--extractor-retries 3'',
      ''--cookies-from-browser chrome'',
      ''--user-agent "Mozilla/5.0 (Windows NT 10.0; Win64; x64) AppleWebKit/537.36 (KHTML, like Gecko) Chrome/91.0.4472.124 Safari/537.36"'',
      ''--add-header "Accept-Language: en-US,en;q=0.9"'',
      ''--sleep-interval 5'', ''--max-sleep-interval 10'', ''--fragment-retries 10'',
      ''--force-ipv4'']\<close>

definition single_command :: "string \<Rightarrow> string \<Rightarrow> video_config \<Rightarrow> string" where
  \<open>single_command defaultOptions basePath cfg =
     ''yt-dlp '' @ defaultOptions @ '' -f "'' @ formatString (video_config.maxHeight cfg)
       @ ''" --output "'' @ downloadPath (video_config.outputPath cfg) basePath
       @ ''/%(title)s.%(ext)s" "'' @ to_string (videoUrl cfg) @ ''"''\<close>

definition playlist_command :: "string \<Rightarrow> string \<Rightarrow> playlist_config \<Rightarrow> string" where
  \<open>playlist_command defaultOptions basePath cfg =
     ''yt-dlp '' @ defaultOptions @ '' -f "'' @ formatString (playlist_config.maxHeight cfg)
       @ ''" -o "'' @ downloadPath (playlist_config.outputPath cfg) basePath
       @ ''/%(playlist_title)s/%(playlist_index)s - %(title)s.%(ext)s" "''
       @ to_string (playlistUrl cfg) @ ''"''\<close>

definition basic_playlist_command :: "string \<Rightarrow> playlist_config \<Rightarrow> string" where
  \<open>basic_playlist_command basePath cfg =
     ''yt-dlp -f "'' @ basic_formatString (playlist_config.maxHeight cfg)
       @ ''" -o "'' @ downloadPath (playlist_config.outputPath cfg) basePath
       @ ''/%(playlist_title)s/%(playlist_index)s - %(title)s.%(ext)s" ''
       @ to_string (playlistUrl cfg)\<close>

section \<open>The retrying download methods\<close>

definition maxRetries :: nat where
  "maxRetries = 3"

text \<open>
  One pass through the promise executor of the strict methods
  (youtube-downloader.js 129-154, youtube-single-downloader.js 34-57): launch, stream, and
  on \<^verbatim>\<open>'close'\<close> resolve for code 0 only. \<open>module_exec\<close> is what the identifier
  \<^verbatim>\<open>exec\<close> is bound to in the module: \<open>Some l\<close> where the file requires
  \<^verbatim>\<open>child_process\<close>, \<open>None\<close> where it does not, and then the call raises inside the
  executor, which rejects the promise before anything is launched.
\<close>

definition strict_attempt ::
  "launcher option \<Rightarrow> string \<Rightarrow> nat \<Rightarrow> trace \<Rightarrow> (error + string) \<times> trace" where
  "strict_attempt module_exec command retryCount t =
     (case module_exec of
        None \<Rightarrow> (Inl (ReferenceError ''exec is not defined''), t)
      | Some l \<Rightarrow>
          (case exec l command t of
             (p, t1) \<Rightarrow>
               (case stream_output p t1 of
                  (outputLog, errorLog, t2) \<Rightarrow>
                    if exit_code p = Some 0
                    then (Inr ''Video download completed successfully'', t2)
                    else (Inl (Error (''Download failed (attempt ''
                                  @ nat_to_string (retryCount + 1) @ ''/''
                                  @ nat_to_string maxRetries @ ''):'' @ newline
                                  @ ''Exit code: '' @ code_to_string (exit_code p) @ newline
                                  @ ''Error log: '' @ errorLog)), t2))))"

text \<open>
  The \<^verbatim>\<open>while (retryCount < maxRetries)\<close> loop of the strict methods
  (youtube-downloader.js 127-164, youtube-single-downloader.js 32-66): on rejection the
  counter is incremented, the third rejection is rethrown, otherwise the retry is announced
  and 2000 ms are awaited. Leaving the loop by its condition would resolve with
  \<^verbatim>\<open>undefined\<close>.
\<close>

function strict_retry_loop ::
  "launcher option \<Rightarrow> string \<Rightarrow> nat \<Rightarrow> trace \<Rightarrow> (error + js_value) \<times> trace" where
  "strict_retry_loop module_exec command retryCount t =
     (if retryCount < maxRetries then
        (case strict_attempt module_exec command retryCount t of
           (Inr msg, t1) \<Rightarrow> (Inr (JStr msg), t1)
         | (Inl error, t1) \<Rightarrow>
             if retryCount + 1 = maxRetries then (Inl error, t1)
             else strict_retry_loop module_exec command (retryCount + 1)
                    (setTimeout 2000
                       (console_log (''Retry attempt '' @ nat_to_string (retryCount + 1) @ ''/''
                                       @ nat_to_string maxRetries @ ''...'') t1)))
      else (Inr JUndefined, t))"
  by pat_completeness auto
termination
  by (relation "measure (\<lambda>(module_exec, command, retryCount, t). maxRetries - retryCount)") auto

definition strict_downloadSingleVideo ::
  "launcher option \<Rightarrow> string \<Rightarrow> string \<Rightarrow> video_config \<Rightarrow> trace \<Rightarrow> (error + js_value) \<times> trace" where
  "strict_downloadSingleVideo module_exec defaultOptions basePath cfg t =
     (if \<not> truthy (videoUrl cfg) then (Inl (Error ''Video URL is required''), t)
      else
        strict_retry_loop module_exec (single_command defaultOptions basePath cfg) 0
          (console_log (''Debug: Executing command: '' @ single_command defaultOptions basePath cfg)
             (console_log (''Starting download for video: '' @ to_string (videoUrl cfg)) t)))"

text \<open>\<open>YoutubeDownloader.downloadSingleVideo\<close>, youtube-downloader.js 107-165.\<close>

definition YoutubeDownloader_downloadSingleVideo ::
  "launcher \<Rightarrow> string \<Rightarrow> video_config \<Rightarrow> trace \<Rightarrow> (error + js_value) \<times> trace" where
  "YoutubeDownloader_downloadSingleVideo l basePath cfg t =
     strict_downloadSingleVideo (Some l) base_defaultOptions basePath cfg t"

text \<open>
  \<open>YoutubeSingleDownloader.downloadSingleVideo\<close> of youtube-single-downloader.js 12-67: the
  same body, in a module that requires only the base class, so \<^verbatim>\<open>exec\<close> is unbound
  there. The class has no constructor of its own and inherits the base options.
\<close>

definition YoutubeSingleDownloader_downloadSingleVideo ::
  "string \<Rightarrow> video_config \<Rightarrow> trace \<Rightarrow> (error + js_value) \<times> trace" where
  "YoutubeSingleDownloader_downloadSingleVideo basePath cfg t =
     strict_downloadSingleVideo None base_defaultOptions basePath cfg t"

text \<open>
  One pass through the promise executor of the hardened methods
  (youtube-downloader.js 375-397, youtube-playlist-downloader.js 89-111): codes 0 and 1
  both resolve, with the method's own success message.
\<close>

definition hardened_attempt ::
  "launcher \<Rightarrow> string \<Rightarrow> string \<Rightarrow> trace \<Rightarrow> (error + string) \<times> trace" where
  "hardened_attempt l success command t =
     (case exec l command t of
        (p, t1) \<Rightarrow>
          (case stream_output p t1 of
             (outputLog, errorLog, t2) \<Rightarrow>
               if exit_code p = Some 0 \<or> exit_code p = Some 1
               then (Inr success, t2)
               else (Inl (Error (''Download failed with code '' @ code_to_string (exit_code p)
                             @ newline @ ''Error log: '' @ errorLog)), t2)))"

text \<open>
  The loop of the hardened methods (youtube-downloader.js 373-407,
  youtube-playlist-downloader.js 87-121): the retry is announced before the test that
  rethrows, and the delay is \<^verbatim>\<open>5000 * retryCount\<close>.
\<close>

function hardened_retry_loop ::
  "launcher \<Rightarrow> string \<Rightarrow> string \<Rightarrow> nat \<Rightarrow> trace \<Rightarrow> (error + js_value) \<times> trace" where
  "hardened_retry_loop l success command retryCount t =
     (if retryCount < maxRetries then
        (case hardened_attempt l success command t of
           (Inr msg, t1) \<Rightarrow> (Inr (JStr msg), t1)
         | (Inl error, t1) \<Rightarrow>
             if retryCount + 1 = maxRetries
             then (Inl error,
                   console_log (''Retry attempt '' @ nat_to_string (retryCount + 1) @ ''/''
                                  @ nat_to_string maxRetries @ ''...'') t1)
             else hardened_retry_loop l success command (retryCount + 1)
                    (setTimeout (5000 * (retryCount + 1))
                       (console_log (''Retry attempt '' @ nat_to_string (retryCount + 1) @ ''/''
                                       @ nat_to_string maxRetries @ ''...'') t1)))
      else (Inr JUndefined, t))"
  by pat_completeness auto
termination
  by (relation "measure (\<lambda>(l, success, command, retryCount, t). maxRetries - retryCount)") auto

text \<open>
  \<open>YoutubeSingleDownloader.downloadSingleVideo\<close>, the hardened copy,
  youtube-downloader.js 353-408.
\<close>

definition hardened_downloadSingleVideo ::
  "launcher \<Rightarrow> string \<Rightarrow> video_config \<Rightarrow> trace \<Rightarrow> (error + js_value) \<times> trace" where
  "hardened_downloadSingleVideo l basePath cfg t =
     (if \<not> truthy (videoUrl cfg) then (Inl (Error ''Video URL is required''), t)
      else
        hardened_retry_loop l ''Download completed successfully''
          (single_command single_hardened_defaultOptions basePath cfg) 0
          (console_log (''Debug: Starting download with command: ''
                          @ single_command single_hardened_defaultOptions basePath cfg)
             (console_log (''Starting download for video: '' @ to_string (videoUrl cfg)) t)))"

text \<open>\<open>YoutubePlaylistDownloader.downloadPlaylist\<close>, youtube-playlist-downloader.js 69-122.\<close>

definition YoutubePlaylistDownloader_downloadPlaylist ::
  "launcher \<Rightarrow> string \<Rightarrow> playlist_config \<Rightarrow> trace \<Rightarrow> (error + js_value) \<times> trace" where
  "YoutubePlaylistDownloader_downloadPlaylist l basePath cfg t =
     (if \<not> truthy (playlistUrl cfg) then (Inl (Error ''Playlist URL is required''), t)
      else
        hardened_retry_loop l ''Download completed with some videos''
          (playlist_command playlist_hardened_defaultOptions basePath cfg) 0
          (console_log (''Debug: Starting download with command: ''
                          @ playlist_command playlist_hardened_defaultOptions basePath cfg) t))"

section \<open>The basic playlist method\<close>

text \<open>
  \<open>YoutubeDownloader.downloadPlaylist\<close> (youtube-downloader.js 63-97) and its copy in the
  second \<open>YoutubePlaylistDownloader\<close> (youtube-playlist-downloader.js 205-237): one launch,
  no loop, only code 0 resolves.
\<close>

definition basic_downloadPlaylist ::
  "launcher \<Rightarrow> string \<Rightarrow> playlist_config \<Rightarrow> trace \<Rightarrow> (error + js_value) \<times> trace" where
  "basic_downloadPlaylist l basePath cfg t =
     (if \<not> truthy (playlistUrl cfg) then (Inl (Error ''Playlist URL is required''), t)
      else
        (case exec l (basic_playlist_command basePath cfg) t of
           (p, t1) \<Rightarrow>
             if exit_code p = Some 0
             then (Inr (JStr ''Download completed successfully''), fold echo_data (chunks p) t1)
             else (Inl (Error (''Download failed with code '' @ code_to_string (exit_code p))),
                   fold echo_data (chunks p) t1)))"

section \<open>Promise combinators, the batch method and the dependency check\<close>

text \<open>
  \<^verbatim>\<open>Promise.all\<close> on promises that have settled: the values in order, or a rejection.
  Which rejection wins is a matter of timing in JavaScript; here it is the first in the
  array, and \<open>checkDependencies\<close>, which uses it, discards the error. The batch method
  waits on promises that settle one after another, and is modelled step by step below.
\<close>

fun promise_all :: "(error + 'a) list \<Rightarrow> error + 'a list" where
  "promise_all [] = Inr []"
| "promise_all (Inl e # rs) = Inl e"
| "promise_all (Inr v # rs) = (case promise_all rs of Inl e \<Rightarrow> Inl e | Inr vs \<Rightarrow> Inr (v # vs))"

text \<open>\<^verbatim>\<open>.then(() => console.log(s))\<close> and \<^verbatim>\<open>.catch(error => console.error(f(error)))\<close>.\<close>

definition then_log :: "string \<Rightarrow> (error + 'a) \<times> trace \<Rightarrow> (error + js_value) \<times> trace" where
  "then_log s r =
     (case r of (Inr v, t) \<Rightarrow> (Inr JUndefined, console_log s t) | (Inl e, t) \<Rightarrow> (Inl e, t))"

definition catch_log ::
  "(error \<Rightarrow> string) \<Rightarrow> (error + js_value) \<times> trace \<Rightarrow> (error + js_value) \<times> trace" where
  "catch_log f r =
     (case r of (Inl e, t) \<Rightarrow> (Inr JUndefined, console_error (f e) t) | (Inr v, t) \<Rightarrow> (Inr v, t))"

text \<open>
  The argument of the batch method is any JavaScript value; all the method asks of it is
  \<^verbatim>\<open>Array.isArray\<close>, and then its elements, which are taken to be configuration objects.
\<close>

datatype 'a js_argument = NotAnArray | Array "'a list"

text \<open>
  The items of a batch run concurrently, each against its own subprocesses, and the batch
  method is suspended in \<^verbatim>\<open>await Promise.all\<close> while they do. Its state at a moment of the
  event loop: the trace of every item's own download (all are started by \<^verbatim>\<open>map\<close> before
  the await); the items whose download has settled and whose \<^verbatim>\<open>.then\<close> or \<^verbatim>\<open>.catch\<close>
  has run, in that order; the number of elements \<^verbatim>\<open>Promise.all\<close> still waits for; what the
  batch method and those callbacks have printed; and the outcome of the call, \<open>None\<close> while
  the await is pending. No order is claimed between the downloads of two items.
\<close>

record batch_state =
  item_traces :: "trace list"
  settled_items :: "nat list"
  remaining :: nat
  batch_console :: trace
  batch_result :: "(error + js_value) option"

text \<open>
  \<open>map_callback\<close> is the arrow function given to \<^verbatim>\<open>playlists.map\<close>
  (youtube-downloader.js 42-46): the item's download with its \<^verbatim>\<open>.then\<close> and
  \<^verbatim>\<open>.catch\<close>, which print to the console when the download settles and decide how the
  chained promise settles. \<open>downloadPlaylist\<close> is the method \<^verbatim>\<open>this.downloadPlaylist\<close> of
  the class at hand, and \<open>launchers index\<close> the launcher behind the item at \<open>index\<close>.
\<close>

definition map_callback ::
  "(launcher \<Rightarrow> playlist_config \<Rightarrow> trace \<Rightarrow> (error + js_value) \<times> trace) \<Rightarrow> (nat \<Rightarrow> launcher) \<Rightarrow>
   nat \<Rightarrow> playlist_config \<Rightarrow> trace \<Rightarrow> (error + js_value) \<times> trace" where
  "map_callback downloadPlaylist launchers index playlist console =
     catch_log (\<lambda>error. ''Playlist '' @ nat_to_string (index + 1) @ '' failed: '' @ message error)
       (then_log (''Playlist '' @ nat_to_string (index + 1) @ '' completed successfully'')
          (fst (downloadPlaylist (launchers index) playlist []), console))"

text \<open>
  What \<^verbatim>\<open>Promise.all\<close> and the \<^verbatim>\<open>try\<close> block awaiting it (youtube-downloader.js 48-53)
  do when one element settles: nothing once the call has an outcome; on a rejection the
  \<^verbatim>\<open>catch\<close> block prints and rethrows; on a fulfilment the count goes down, and at zero
  the await returns, the last line is printed and the call resolves.
\<close>

definition promise_all_reaction :: "error + js_value \<Rightarrow> batch_state \<Rightarrow> batch_state" where
  "promise_all_reaction chained st =
     (case batch_result st of
        Some outcome \<Rightarrow> st
      | None \<Rightarrow>
          (case chained of
             Inl error \<Rightarrow>
               st\<lparr>batch_console :=
                     console_error (''Error in batch download: '' @ message error)
                       (batch_console st),
                   batch_result := Some (Inl error)\<rparr>
           | Inr v \<Rightarrow>
               if remaining st - 1 = 0
               then st\<lparr>remaining := 0,
                       batch_console := console_log ''All downloads completed!'' (batch_console st),
                       batch_result := Some (Inr JUndefined)\<rparr>
               else st\<lparr>remaining := remaining st - 1\<rparr>))"

text \<open>
  The event loop delivers the settlement of the download of item \<open>index\<close>: its callbacks
  run, then \<^verbatim>\<open>Promise.all\<close> reacts. A promise settles once, and only the items of the
  array have one.
\<close>

definition settle_item ::
  "(launcher \<Rightarrow> playlist_config \<Rightarrow> trace \<Rightarrow> (error + js_value) \<times> trace) \<Rightarrow> (nat \<Rightarrow> launcher) \<Rightarrow>
   playlist_config list \<Rightarrow> nat \<Rightarrow> batch_state \<Rightarrow> batch_state" where
  "settle_item downloadPlaylist launchers ps index st =
     (if index < length ps \<and> index \<notin> set (settled_items st)
      then
        (case map_callback downloadPlaylist launchers index (ps ! index) (batch_console st) of
           (chained, console) \<Rightarrow>
             promise_all_reaction chained
               (st\<lparr>settled_items := settled_items st @ [index], batch_console := console\<rparr>))
      else st)"

text \<open>
  The batch once the guard has passed and the call is suspended in the await: the first
  line is printed and \<^verbatim>\<open>map\<close> has started every download. \<open>batch_after\<close> is that state
  after the event loop has delivered the settlements listed in \<open>schedule\<close>, in that order.
\<close>

definition batch_started ::
  "(launcher \<Rightarrow> playlist_config \<Rightarrow> trace \<Rightarrow> (error + js_value) \<times> trace) \<Rightarrow> (nat \<Rightarrow> launcher) \<Rightarrow>
   playlist_config list \<Rightarrow> batch_state" where
  "batch_started downloadPlaylist launchers ps =
     \<lparr>item_traces =
        map (\<lambda>(index, playlist). snd (downloadPlaylist (launchers index) playlist []))
          (enumerate 0 ps),
      settled_items = [],
      remaining = length ps,
      batch_console =
        console_log (''Starting download of '' @ nat_to_string (length ps) @ '' playlists...'') [],
      batch_result = None\<rparr>"

definition batch_after ::
  "(launcher \<Rightarrow> playlist_config \<Rightarrow> trace \<Rightarrow> (error + js_value) \<times> trace) \<Rightarrow> (nat \<Rightarrow> launcher) \<Rightarrow>
   playlist_config list \<Rightarrow> nat list \<Rightarrow> batch_state" where
  "batch_after downloadPlaylist launchers ps schedule =
     fold (settle_item downloadPlaylist launchers ps) schedule
       (batch_started downloadPlaylist launchers ps)"

text \<open>
  \<open>downloadMultiplePlaylists\<close> (youtube-downloader.js 33-54,
  youtube-playlist-downloader.js 40-60 and 176-196), observed after the deliveries in
  \<open>schedule\<close>. The guard throws before anything else happens.
\<close>

definition downloadMultiplePlaylists ::
  "(launcher \<Rightarrow> playlist_config \<Rightarrow> trace \<Rightarrow> (error + js_value) \<times> trace) \<Rightarrow> (nat \<Rightarrow> launcher) \<Rightarrow>
   nat list \<Rightarrow> playlist_config js_argument \<Rightarrow> batch_state" where
  "downloadMultiplePlaylists downloadPlaylist launchers schedule playlists =
     (case playlists of
        NotAnArray \<Rightarrow>
          \<lparr>item_traces = [], settled_items = [], remaining = 0, batch_console = [],
           batch_result = Some (Inl (Error ''Please provide an array of playlist configurations''))\<rparr>
      | Array ps \<Rightarrow>
          if length ps = 0
          then \<lparr>item_traces = [], settled_items = [], remaining = 0, batch_console = [],
                batch_result =
                  Some (Inl (Error ''Please provide an array of playlist configurations''))\<rparr>
          else batch_after downloadPlaylist launchers ps schedule)"

text \<open>
  \<open>executeCommand\<close> and \<open>checkDependencies\<close> (youtube-downloader.js 170-190 and 297-317).
  \<open>run command\<close> is what \<^verbatim>\<open>exec\<close> passes to its callback: the error, if any, and the two
  captured streams.
\<close>

definition executeCommand ::
  "(string \<Rightarrow> error option \<times> string \<times> string) \<Rightarrow> string \<Rightarrow> error + string" where
  "executeCommand run command =
     (case run command of
        (Some error, stdout, stderr) \<Rightarrow> Inl error
      | (None, stdout, stderr) \<Rightarrow> Inr stdout)"

definition checkDependencies ::
  "(string \<Rightarrow> error option \<times> string \<times> string) \<Rightarrow> (error + bool) \<times> trace" where
  "checkDependencies run =
     (case promise_all [executeCommand run ''yt-dlp --version'',
                        executeCommand run ''ffmpeg -version''] of
        Inr vs \<Rightarrow> (Inr True, [Exec ''yt-dlp --version'', Exec ''ffmpeg -version''])
      | Inl error \<Rightarrow>
          (Inr False,
           console_error ''Missing dependencies. Please install yt-dlp and ffmpeg''
             [Exec ''yt-dlp --version'', Exec ''ffmpeg -version'']))"

section \<open>Reading a process and a trace\<close>

text \<open>What a process wrote to each stream, and the console line each chunk becomes.\<close>

fun stdout_text :: "chunk list \<Rightarrow> string" where
  "stdout_text [] = []"
| "stdout_text (Stdout d # cs) = d @ stdout_text cs"
| "stdout_text (Stderr d # cs) = stdout_text cs"

fun stderr_text :: "chunk list \<Rightarrow> string" where
  "stderr_text [] = []"
| "stderr_text (Stdout d # cs) = stderr_text cs"
| "stderr_text (Stderr d # cs) = d @ stderr_text cs"

fun echo_event :: "chunk \<Rightarrow> event" where
  "echo_event (Stdout d) = ConsoleLog d"
| "echo_event (Stderr d) = ConsoleError d"

text \<open>
  The line an item's callbacks print once its download has settled.
\<close>

definition item_line ::
  "(launcher \<Rightarrow> playlist_config \<Rightarrow> trace \<Rightarrow> (error + js_value) \<times> trace) \<Rightarrow> (nat \<Rightarrow> launcher) \<Rightarrow>
   playlist_config list \<Rightarrow> nat \<Rightarrow> event" where
  "item_line downloadPlaylist launchers ps i =
     (case fst (downloadPlaylist (launchers i) (ps ! i) []) of
        Inr v \<Rightarrow> ConsoleLog (''Playlist '' @ nat_to_string (i + 1) @ '' completed successfully'')
      | Inl e \<Rightarrow> ConsoleError (''Playlist '' @ nat_to_string (i + 1) @ '' failed: '' @ message e))"

text \<open>
  Decimal notation, stated apart from the printing functions: \<open>decimal_of i s\<close> holds when
  \<open>s\<close> is the numeral of \<open>i\<close> as JavaScript writes an integer, that is a minus sign for a
  negative number, then digits whose value is the magnitude, with no leading zero.
\<close>

definition is_digit :: "char \<Rightarrow> bool" where
  "is_digit c = (c \<in> set ''0123456789'')"

definition digit_value :: "char \<Rightarrow> nat" where
  "digit_value c = of_char c - 48"

definition decimal_value :: "string \<Rightarrow> nat" where
  "decimal_value ds = foldl (\<lambda>acc c. 10 * acc + digit_value c) 0 ds"

definition canonical_digits :: "string \<Rightarrow> bool" where
  "canonical_digits ds =
     (ds \<noteq> [] \<and> list_all is_digit ds \<and> (if hd ds = CHR ''0'' then length ds = 1 else True))"

definition decimal_of :: "int \<Rightarrow> string \<Rightarrow> bool" where
  "decimal_of i s =
     (if i < 0
      then s \<noteq> [] \<and> hd s = CHR ''-'' \<and> canonical_digits (tl s)
             \<and> int (decimal_value (tl s)) = - i
      else canonical_digits s \<and> int (decimal_value s) = i)"

text \<open>A launcher all of whose processes write nothing and exit with code \<open>c\<close>.\<close>

definition exits_with :: "int \<Rightarrow> launcher" where
  "exits_with c n = \<lparr>chunks = [], exit_code = Some c\<rparr>"

section \<open>Basic facts\<close>

declare strict_retry_loop.simps [simp del] hardened_retry_loop.simps [simp del]
  nat_to_string.simps [simp del]
  nat_to_string.simps [simp del]

lemma fold_on_data:
  "fold on_data cs (out, err, t) =
     (out @ stdout_text cs, err @ stderr_text cs, t @ map echo_event cs)"
proof (induction cs arbitrary: out err t)
  case Nil
  show ?case by simp
next
  case (Cons c cs)
  show ?case by (cases c) (simp_all add: Cons.IH console_log_def console_error_def)
qed

lemma stream_output_eq:
  "stream_output p t =
     (stdout_text (chunks p), stderr_text (chunks p), t @ map echo_event (chunks p))"
  by (simp add: stream_output_def fold_on_data)

lemma fold_echo_data: "fold echo_data cs t = t @ map echo_event cs"
proof (induction cs arbitrary: t)
  case Nil
  show ?case by simp
next
  case (Cons c cs)
  show ?case by (cases c) (simp_all add: Cons.IH console_log_def console_error_def)
qed

lemma launches_append [simp]: "launches (t @ u) = launches t @ launches u"
  by (simp add: launches_def)

lemma timeline_append [simp]: "timeline (t @ u) = timeline t @ timeline u"
  by (simp add: timeline_def)

lemma launches_simps [simp]:
  "launches [] = []"
  "launches (Exec c # t) = Exec c # launches t"
  "launches (Sleep n # t) = launches t"
  "launches (ConsoleLog s # t) = launches t"
  "launches (ConsoleError s # t) = launches t"
  by (simp_all add: launches_def)

lemma timeline_simps [simp]:
  "timeline [] = []"
  "timeline (Exec c # t) = Exec c # timeline t"
  "timeline (Sleep n # t) = Sleep n # timeline t"
  "timeline (ConsoleLog s # t) = timeline t"
  "timeline (ConsoleError s # t) = timeline t"
  by (simp_all add: timeline_def)

lemma launches_echo [simp]: "launches (map echo_event cs) = []"
proof (induction cs)
  case Nil
  show ?case by simp
next
  case (Cons c cs)
  then show ?case by (cases c) simp_all
qed

lemma timeline_echo [simp]: "timeline (map echo_event cs) = []"
proof (induction cs)
  case Nil
  show ?case by simp
next
  case (Cons c cs)
  then show ?case by (cases c) simp_all
qed

text \<open>One pass of each executor, spelled out.\<close>

lemma strict_attempt_eq:
  "strict_attempt (Some l) command retryCount t =
     (if exit_code (l (length (launches t))) = Some 0
      then Inr ''Video download completed successfully''
      else Inl (Error (''Download failed (attempt '' @ nat_to_string (retryCount + 1) @ ''/''
                  @ nat_to_string maxRetries @ ''):'' @ newline
                  @ ''Exit code: '' @ code_to_string (exit_code (l (length (launches t))))
                  @ newline
                  @ ''Error log: '' @ stderr_text (chunks (l (length (launches t)))))),
      t @ Exec command # map echo_event (chunks (l (length (launches t)))))"
  by (simp add: strict_attempt_def exec_def stream_output_eq)

lemma strict_attempt_unbound:
  "strict_attempt None command retryCount t = (Inl (ReferenceError ''exec is not defined''), t)"
  by (simp add: strict_attempt_def)

lemma hardened_attempt_eq:
  "hardened_attempt l success command t =
     (if exit_code (l (length (launches t))) = Some 0
         \<or> exit_code (l (length (launches t))) = Some 1
      then Inr success
      else Inl (Error (''Download failed with code ''
                  @ code_to_string (exit_code (l (length (launches t)))) @ newline
                  @ ''Error log: '' @ stderr_text (chunks (l (length (launches t)))))),
      t @ Exec command # map echo_event (chunks (l (length (launches t)))))"
  by (simp add: hardened_attempt_def exec_def stream_output_eq)

lemmas strict_unfold =
  strict_retry_loop.simps [of _ _ 0] strict_retry_loop.simps [of _ _ "Suc 0"]
  strict_retry_loop.simps [of _ _ "Suc (Suc 0)"]

lemmas hardened_unfold =
  hardened_retry_loop.simps [of _ _ _ 0] hardened_retry_loop.simps [of _ _ _ "Suc 0"]
  hardened_retry_loop.simps [of _ _ _ "Suc (Suc 0)"]

text \<open>Three rejected passes in a row: what is thrown, and the launches and delays.\<close>

lemma strict_all_fail:
  assumes "\<And>n. n < 3 \<Longrightarrow> exit_code (l n) \<noteq> Some 0" and "launches t0 = []"
  shows "fst (strict_retry_loop (Some l) command 0 t0) =
           Inl (Error (''Download failed (attempt 3/3):'' @ newline
                  @ ''Exit code: '' @ code_to_string (exit_code (l 2)) @ newline
                  @ ''Error log: '' @ stderr_text (chunks (l 2))))"
    and "timeline (snd (strict_retry_loop (Some l) command 0 t0)) =
           timeline t0 @ [Exec command, Sleep 2000, Exec command, Sleep 2000, Exec command]"
  using assms
  by (simp_all add: strict_unfold strict_attempt_eq maxRetries_def console_log_def
      setTimeout_def nat_to_string.simps digit_char_def numeral_2_eq_2)

lemma hardened_all_fail:
  assumes "\<And>n. n < 3 \<Longrightarrow> exit_code (l n) \<noteq> Some 0"
    and "\<And>n. n < 3 \<Longrightarrow> exit_code (l n) \<noteq> Some 1"
    and "launches t0 = []"
  shows "fst (hardened_retry_loop l success command 0 t0) =
           Inl (Error (''Download failed with code '' @ code_to_string (exit_code (l 2))
                  @ newline @ ''Error log: '' @ stderr_text (chunks (l 2))))"
    and "timeline (snd (hardened_retry_loop l success command 0 t0)) =
           timeline t0 @ [Exec command, Sleep 5000, Exec command, Sleep 10000, Exec command]"
  using assms
  by (simp_all add: hardened_unfold hardened_attempt_eq maxRetries_def console_log_def
      setTimeout_def nat_to_string.simps digit_char_def numeral_2_eq_2)

section \<open>Decimal notation\<close>

text \<open>
  The printing functions write decimal numerals: digits only, of the right value, with no
  leading zero, and a minus sign for a negative number.
\<close>

lemma digit_char_is_digit: "is_digit (digit_char d)"
  by (simp add: digit_char_def is_digit_def)

lemma digit_value_digit_char: "d < 10 \<Longrightarrow> digit_value (digit_char d) = d"
  by (simp add: digit_char_def digit_value_def)

lemma digit_char_zero: "d < 10 \<Longrightarrow> digit_char d = CHR ''0'' \<Longrightarrow> d = 0"
  by (simp add: digit_char_def split: if_splits)

lemma decimal_value_snoc:
  "decimal_value (ds @ [c]) = 10 * decimal_value ds + digit_value c"
  by (simp add: decimal_value_def)

lemma nat_to_string_nonempty: "nat_to_string n \<noteq> []"
  by (subst nat_to_string.simps) simp

lemma nat_to_string_digits: "list_all is_digit (nat_to_string n)"
proof (induction n rule: nat_to_string.induct)
  case (1 n)
  show ?case
  proof (cases "n < 10")
    case True
    then show ?thesis
      by (subst nat_to_string.simps) (simp add: digit_char_is_digit)
  next
    case False
    with "1.IH" show ?thesis
      by (subst nat_to_string.simps) (simp add: digit_char_is_digit)
  qed
qed

lemma nat_to_string_value: "decimal_value (nat_to_string n) = n"
proof (induction n rule: nat_to_string.induct)
  case (1 n)
  show ?case
  proof (cases "n < 10")
    case True
    then show ?thesis
      by (subst nat_to_string.simps)
        (simp add: decimal_value_def digit_value_digit_char)
  next
    case False
    with "1.IH" show ?thesis
      by (subst nat_to_string.simps)
        (simp add: decimal_value_snoc digit_value_digit_char)
  qed
qed

lemma nat_to_string_leading:
  "hd (nat_to_string n) = CHR ''0'' \<Longrightarrow> n = 0"
proof (induction n rule: nat_to_string.induct)
  case (1 n)
  show ?case
  proof (cases "n < 10")
    case True
    with "1.prems" show ?thesis
      by (subst (asm) nat_to_string.simps) (simp add: digit_char_zero)
  next
    case False
    with "1.prems" have "hd (nat_to_string (n div 10)) = CHR ''0''"
      by (subst (asm) nat_to_string.simps) (simp add: nat_to_string_nonempty)
    with "1.IH" False have "n div 10 = 0" by simp
    with False show ?thesis by simp
  qed
qed

lemma nat_to_string_zero: "nat_to_string 0 = ''0''"
  by (simp add: nat_to_string.simps digit_char_def)

lemma nat_to_string_canonical: "canonical_digits (nat_to_string n)"
  using nat_to_string_leading [of n]
  by (auto simp add: canonical_digits_def nat_to_string_nonempty nat_to_string_digits
      nat_to_string_zero)

lemma int_to_string_decimal: "decimal_of i (int_to_string i)"
  by (simp add: decimal_of_def int_to_string_def nat_to_string_canonical nat_to_string_value)

section \<open>Retry exhaustion\<close>

text \<open>
  C1. When every process the launcher starts exits with a code that is neither 0 nor 1, a
  call with a URL launches exactly three processes, all with the one command built before
  the loop, and awaits a delay between consecutive launches: 2000 ms twice in
  \<open>YoutubeDownloader.downloadSingleVideo\<close>, 5000 ms and then 10000 ms
  (\<^verbatim>\<open>5000 * retryCount\<close>) in the hardened \<open>downloadPlaylist\<close> and \<open>downloadSingleVideo\<close>.
  The call then rejects with an error whose message is the method's failure text with the
  decimal numeral of the third process's exit code in it, followed by what that process
  wrote to its standard error.
\<close>

theorem retry_exhaustion_launches_and_backoff:
  assumes codes: "\<And>n. exit_code (l n) = Some (codes n)"
    and retryable: "\<And>n. codes n \<noteq> 0 \<and> codes n \<noteq> 1"
    and video: "truthy (videoUrl v)"
    and playlist: "truthy (playlistUrl p)"
  shows
    "timeline (snd (YoutubeDownloader_downloadSingleVideo l basePath v [])) =
       [Exec (single_command base_defaultOptions basePath v), Sleep 2000,
        Exec (single_command base_defaultOptions basePath v), Sleep 2000,
        Exec (single_command base_defaultOptions basePath v)]
     \<and> (\<exists>e d. fst (YoutubeDownloader_downloadSingleVideo l basePath v []) = Inl e
            \<and> decimal_of (codes 2) d
            \<and> message e = ''Download failed (attempt 3/3):'' @ newline
                 @ ''Exit code: '' @ d @ newline
                 @ ''Error log: '' @ stderr_text (chunks (l 2))
            \<and> sublist (''Exit code: '' @ d) (message e))
     \<and> timeline (snd (YoutubePlaylistDownloader_downloadPlaylist l basePath p [])) =
       [Exec (playlist_command playlist_hardened_defaultOptions basePath p), Sleep 5000,
        Exec (playlist_command playlist_hardened_defaultOptions basePath p), Sleep 10000,
        Exec (playlist_command playlist_hardened_defaultOptions basePath p)]
     \<and> (\<exists>e d. fst (YoutubePlaylistDownloader_downloadPlaylist l basePath p []) = Inl e
            \<and> decimal_of (codes 2) d
            \<and> message e = ''Download failed with code '' @ d @ newline
                 @ ''Error log: '' @ stderr_text (chunks (l 2))
            \<and> sublist (''Download failed with code '' @ d) (message e))
     \<and> timeline (snd (hardened_downloadSingleVideo l basePath v [])) =
       [Exec (single_command single_hardened_defaultOptions basePath v), Sleep 5000,
        Exec (single_command single_hardened_defaultOptions basePath v), Sleep 10000,
        Exec (single_command single_hardened_defaultOptions basePath v)]
     \<and> (\<exists>e d. fst (hardened_downloadSingleVideo l basePath v []) = Inl e
            \<and> decimal_of (codes 2) d
            \<and> message e = ''Download failed with code '' @ d @ newline
                 @ ''Error log: '' @ stderr_text (chunks (l 2))
            \<and> sublist (''Download failed with code '' @ d) (message e))"
proof -
  have not0: "\<And>n. n < 3 \<Longrightarrow> exit_code (l n) \<noteq> Some 0"
    and not1: "\<And>n. n < 3 \<Longrightarrow> exit_code (l n) \<noteq> Some 1"
    using codes retryable by simp_all
  have code2: "code_to_string (exit_code (l 2)) = int_to_string (codes 2)"
    by (simp add: codes)
  note dec = int_to_string_decimal [of "codes 2"]
  have strict_tl:
    "timeline (snd (YoutubeDownloader_downloadSingleVideo l basePath v [])) =
       [Exec (single_command base_defaultOptions basePath v), Sleep 2000,
        Exec (single_command base_defaultOptions basePath v), Sleep 2000,
        Exec (single_command base_defaultOptions basePath v)]"
    using video
    by (simp add: YoutubeDownloader_downloadSingleVideo_def strict_downloadSingleVideo_def
        strict_all_fail(2) [OF not0] console_log_def)
  have strict_err:
    "fst (YoutubeDownloader_downloadSingleVideo l basePath v []) =
       Inl (Error (''Download failed (attempt 3/3):'' @ newline
              @ ''Exit code: '' @ int_to_string (codes 2) @ newline
              @ ''Error log: '' @ stderr_text (chunks (l 2))))"
    using video
    by (simp add: YoutubeDownloader_downloadSingleVideo_def strict_downloadSingleVideo_def
        strict_all_fail(1) [OF not0] console_log_def code2)
  have strict_sub: "sublist (''Exit code: '' @ int_to_string (codes 2))
      (''Download failed (attempt 3/3):'' @ newline
         @ ''Exit code: '' @ int_to_string (codes 2) @ newline
         @ ''Error log: '' @ stderr_text (chunks (l 2)))"
    using sublist_appendI [of "''Exit code: '' @ int_to_string (codes 2)"
        "''Download failed (attempt 3/3):'' @ newline"
        "newline @ ''Error log: '' @ stderr_text (chunks (l 2))"]
    by simp
  have strict_incl: "\<exists>e d. fst (YoutubeDownloader_downloadSingleVideo l basePath v []) = Inl e
            \<and> decimal_of (codes 2) d
            \<and> message e = ''Download failed (attempt 3/3):'' @ newline
                 @ ''Exit code: '' @ d @ newline
                 @ ''Error log: '' @ stderr_text (chunks (l 2))
            \<and> sublist (''Exit code: '' @ d) (message e)"
    using strict_err dec strict_sub
    by (intro exI [of _ "Error (''Download failed (attempt 3/3):'' @ newline
              @ ''Exit code: '' @ int_to_string (codes 2) @ newline
              @ ''Error log: '' @ stderr_text (chunks (l 2)))"]
          exI [of _ "int_to_string (codes 2)"]) simp
  have hard_sub: "sublist (''Download failed with code '' @ int_to_string (codes 2))
      (''Download failed with code '' @ int_to_string (codes 2) @ newline
         @ ''Error log: '' @ stderr_text (chunks (l 2)))"
    using sublist_append_rightI [of "''Download failed with code '' @ int_to_string (codes 2)"
        "newline @ ''Error log: '' @ stderr_text (chunks (l 2))"]
    by simp
  have pl_tl:
    "timeline (snd (YoutubePlaylistDownloader_downloadPlaylist l basePath p [])) =
       [Exec (playlist_command playlist_hardened_defaultOptions basePath p), Sleep 5000,
        Exec (playlist_command playlist_hardened_defaultOptions basePath p), Sleep 10000,
        Exec (playlist_command playlist_hardened_defaultOptions basePath p)]"
    using playlist
    by (simp add: YoutubePlaylistDownloader_downloadPlaylist_def
        hardened_all_fail(2) [OF not0 not1] console_log_def)
  have pl_err:
    "fst (YoutubePlaylistDownloader_downloadPlaylist l basePath p []) =
       Inl (Error (''Download failed with code '' @ int_to_string (codes 2)
              @ newline @ ''Error log: '' @ stderr_text (chunks (l 2))))"
    using playlist
    by (simp add: YoutubePlaylistDownloader_downloadPlaylist_def
        hardened_all_fail(1) [OF not0 not1] console_log_def code2)
  have pl_incl: "\<exists>e d. fst (YoutubePlaylistDownloader_downloadPlaylist l basePath p []) = Inl e
            \<and> decimal_of (codes 2) d
            \<and> message e = ''Download failed with code '' @ d @ newline
                 @ ''Error log: '' @ stderr_text (chunks (l 2))
            \<and> sublist (''Download failed with code '' @ d) (message e)"
    using pl_err dec hard_sub
    by (intro exI [of _ "Error (''Download failed with code '' @ int_to_string (codes 2)
              @ newline @ ''Error log: '' @ stderr_text (chunks (l 2)))"]
          exI [of _ "int_to_string (codes 2)"]) simp
  have hs_tl:
    "timeline (snd (hardened_downloadSingleVideo l basePath v [])) =
       [Exec (single_command single_hardened_defaultOptions basePath v), Sleep 5000,
        Exec (single_command single_hardened_defaultOptions basePath v), Sleep 10000,
        Exec (single_command single_hardened_defaultOptions basePath v)]"
    using video
    by (simp add: hardened_downloadSingleVideo_def
        hardened_all_fail(2) [OF not0 not1] console_log_def)
  have hs_err:
    "fst (hardened_downloadSingleVideo l basePath v []) =
       Inl (Error (''Download failed with code '' @ int_to_string (codes 2)
              @ newline @ ''Error log: '' @ stderr_text (chunks (l 2))))"
    using video
    by (simp add: hardened_downloadSingleVideo_def
        hardened_all_fail(1) [OF not0 not1] console_log_def code2)
  have hs_incl: "\<exists>e d. fst (hardened_downloadSingleVideo l basePath v []) = Inl e
            \<and> decimal_of (codes 2) d
            \<and> message e = ''Download failed with code '' @ d @ newline
                 @ ''Error log: '' @ stderr_text (chunks (l 2))
            \<and> sublist (''Download failed with code '' @ d) (message e)"
    using hs_err dec hard_sub
    by (intro exI [of _ "Error (''Download failed with code '' @ int_to_string (codes 2)
              @ newline @ ''Error log: '' @ stderr_text (chunks (l 2)))"]
          exI [of _ "int_to_string (codes 2)"]) simp
  from strict_tl strict_incl pl_tl pl_incl hs_tl hs_incl show ?thesis by blast
qed

theorem retry_exhaustion_launches_and_backoff_witness:
  \<open>timeline (snd (YoutubeDownloader_downloadSingleVideo
       (\<lambda>n. \<lparr>chunks = [Stderr ''boom''], exit_code = Some 2\<rparr>) ''/d''
       \<lparr>videoUrl = JStr ''u'', maxHeight = JNum 720, outputPath = JUndefined\<rparr> [])) =
     [Exec (''yt-dlp '' @ base_defaultOptions @ '' -f "bestvideo[height<=720]+bestaudio/best[height<=720]/best" --output "/d/%(title)s.%(ext)s" "u"''),
      Sleep 2000,
      Exec (''yt-dlp '' @ base_defaultOptions @ '' -f "bestvideo[height<=720]+bestaudio/best[height<=720]/best" --output "/d/%(title)s.%(ext)s" "u"''),
      Sleep 2000,
      Exec (''yt-dlp '' @ base_defaultOptions @ '' -f "bestvideo[height<=720]+bestaudio/best[height<=720]/best" --output "/d/%(title)s.%(ext)s" "u"'')]
   \<and> fst (YoutubeDownloader_downloadSingleVideo
       (\<lambda>n. \<lparr>chunks = [Stderr ''boom''], exit_code = Some 2\<rparr>) ''/d''
       \<lparr>videoUrl = JStr ''u'', maxHeight = JNum 720, outputPath = JUndefined\<rparr> []) =
     Inl (Error (''Download failed (attempt 3/3):'' @ newline @ ''Exit code: 2'' @ newline
            @ ''Error log: boom''))
   \<and> timeline (snd (YoutubePlaylistDownloader_downloadPlaylist
       (\<lambda>n. \<lparr>chunks = [Stderr ''boom''], exit_code = Some 2\<rparr>) ''/d''
       \<lparr>playlistUrl = JStr ''u'', maxHeight = JNum 720, outputPath = JUndefined\<rparr> [])) =
     [Exec (''yt-dlp '' @ playlist_hardened_defaultOptions @ '' -f "bestvideo[height<=720]+bestaudio/best[height<=720]/best" -o "/d/%(playlist_title)s/%(playlist_index)s - %(title)s.%(ext)s" "u"''),
      Sleep 5000,
      Exec (''yt-dlp '' @ playlist_hardened_defaultOptions @ '' -f "bestvideo[height<=720]+bestaudio/best[height<=720]/best" -o "/d/%(playlist_title)s/%(playlist_index)s - %(title)s.%(ext)s" "u"''),
      Sleep 10000,
      Exec (''yt-dlp '' @ playlist_hardened_defaultOptions @ '' -f "bestvideo[height<=720]+bestaudio/best[height<=720]/best" -o "/d/%(playlist_title)s/%(playlist_index)s - %(title)s.%(ext)s" "u"'')]
   \<and> fst (YoutubePlaylistDownloader_downloadPlaylist
       (\<lambda>n. \<lparr>chunks = [Stderr ''boom''], exit_code = Some 2\<rparr>) ''/d''
       \<lparr>playlistUrl = JStr ''u'', maxHeight = JNum 720, outputPath = JUndefined\<rparr> []) =
     Inl (Error (''Download failed with code 2'' @ newline @ ''Error log: boom''))\<close>
proof -
  let ?l = "\<lambda>n::nat. \<lparr>chunks = [Stderr ''boom''], exit_code = Some (2::int)\<rparr>"
  let ?v = "\<lparr>videoUrl = JStr ''u'', maxHeight = JNum 720, outputPath = JUndefined\<rparr>"
  let ?p = "\<lparr>playlistUrl = JStr ''u'', maxHeight = JNum 720, outputPath = JUndefined\<rparr>"
  note exhausted = retry_exhaustion_launches_and_backoff
    [where l = ?l and codes = "\<lambda>n. 2" and basePath = "''/d''" and v = ?v and p = ?p]
  have two: "int_to_string 2 = ''2''" and h: "int_to_string 720 = ''720''"
    by (simp_all add: int_to_string_def nat_to_string.simps digit_char_def)
  have not0: "\<And>n. n < 3 \<Longrightarrow> exit_code (?l n) \<noteq> Some 0" by simp
  have not1: "\<And>n. n < 3 \<Longrightarrow> exit_code (?l n) \<noteq> Some 1" by simp
  have strict: "fst (YoutubeDownloader_downloadSingleVideo ?l ''/d'' ?v []) =
     Inl (Error (''Download failed (attempt 3/3):'' @ newline @ ''Exit code: 2'' @ newline
            @ ''Error log: boom''))"
    by (simp add: YoutubeDownloader_downloadSingleVideo_def strict_downloadSingleVideo_def
        strict_all_fail(1) [OF not0] console_log_def two)
  have hard: "fst (YoutubePlaylistDownloader_downloadPlaylist ?l ''/d'' ?p []) =
     Inl (Error (''Download failed with code 2'' @ newline @ ''Error log: boom''))"
    by (simp add: YoutubePlaylistDownloader_downloadPlaylist_def
        hardened_all_fail(1) [OF not0 not1] console_log_def two)
  from exhausted strict hard show ?thesis
    by (simp add: single_command_def playlist_command_def formatString_def downloadPath_def h)
qed

section \<open>Bounded retrying\<close>

text \<open>
  Each retry loop is defined by recursion on \<open>maxRetries - retryCount\<close>, so every call
  returns.
  By induction along the loop, each pass launches at most one process, and a loop entered
  with \<open>retryCount < maxRetries\<close> never falls out through its condition.
\<close>

lemma strict_attempt_launches:
  "length (launches (snd (strict_attempt module_exec command retryCount t))) \<le> Suc (length (launches t))"
  by (cases module_exec) (simp_all add: strict_attempt_eq strict_attempt_unbound)

lemma strict_loop_launches:
  "length (launches (snd (strict_retry_loop module_exec command retryCount t)))
     \<le> length (launches t) + (maxRetries - retryCount)"
proof (induction module_exec command retryCount t rule: strict_retry_loop.induct)
  case (1 module_exec command retryCount t)
  note unfold = strict_retry_loop.simps [of module_exec command retryCount t]
  show ?case
  proof (cases "retryCount < maxRetries")
    case False
    then show ?thesis unfolding unfold by simp
  next
    case True
    obtain r t1 where att: "strict_attempt module_exec command retryCount t = (r, t1)"
      by (cases "strict_attempt module_exec command retryCount t")
    have t1: "length (launches t1) \<le> Suc (length (launches t))"
      using strict_attempt_launches [of module_exec command retryCount t] att by simp
    show ?thesis
    proof (cases r)
      case (Inr msg)
      with True att t1 show ?thesis unfolding unfold by simp
    next
      case (Inl error)
      show ?thesis
      proof (cases "retryCount + 1 = maxRetries")
        case last: True
        with True att t1 Inl show ?thesis unfolding unfold by simp
      next
        case more: False
        have "length (launches (snd (strict_retry_loop module_exec command (retryCount + 1)
                (setTimeout 2000
                   (console_log (''Retry attempt '' @ nat_to_string (retryCount + 1) @ ''/''
                                   @ nat_to_string maxRetries @ ''...'') t1)))))
              \<le> length (launches t1) + (maxRetries - (retryCount + 1))"
          using "1.IH" [OF True att [symmetric] Inl more]
          by (simp add: setTimeout_def console_log_def)
        with True att t1 Inl more show ?thesis unfolding unfold by simp
      qed
    qed
  qed
qed


lemma strict_loop_settles:
  "retryCount < maxRetries \<Longrightarrow>
     (\<exists>e. fst (strict_retry_loop module_exec command retryCount t) = Inl e)
     \<or> (\<exists>m. fst (strict_retry_loop module_exec command retryCount t) = Inr (JStr m))"
proof (induction module_exec command retryCount t rule: strict_retry_loop.induct)
  case (1 module_exec command retryCount t)
  note unfold = strict_retry_loop.simps [of module_exec command retryCount t]
  obtain r t1 where att: "strict_attempt module_exec command retryCount t = (r, t1)"
    by (cases "strict_attempt module_exec command retryCount t")
  show ?case
  proof (cases r)
    case (Inr msg)
    with "1.prems" att show ?thesis unfolding unfold by simp
  next
    case (Inl error)
    show ?thesis
    proof (cases "retryCount + 1 = maxRetries")
      case True
      with "1.prems" att Inl show ?thesis unfolding unfold by simp
    next
      case False
      with "1.prems" have "retryCount + 1 < maxRetries" by simp
      from "1.IH" [OF "1.prems" att [symmetric] Inl False this]
      show ?thesis using "1.prems" att Inl False unfolding unfold by simp
    qed
  qed
qed


lemma hardened_attempt_launches:
  "length (launches (snd (hardened_attempt l success command t))) = Suc (length (launches t))"
  by (simp add: hardened_attempt_eq)

lemma hardened_loop_launches:
  "length (launches (snd (hardened_retry_loop l success command retryCount t)))
     \<le> length (launches t) + (maxRetries - retryCount)"
proof (induction l success command retryCount t rule: hardened_retry_loop.induct)
  case (1 l success command retryCount t)
  note unfold = hardened_retry_loop.simps [of l success command retryCount t]
  show ?case
  proof (cases "retryCount < maxRetries")
    case False
    then show ?thesis unfolding unfold by simp
  next
    case True
    obtain r t1 where att: "hardened_attempt l success command t = (r, t1)"
      by (cases "hardened_attempt l success command t")
    have t1: "length (launches t1) = Suc (length (launches t))"
      using hardened_attempt_launches [of l success command t] att by simp
    show ?thesis
    proof (cases r)
      case (Inr msg)
      with True att t1 show ?thesis unfolding unfold by simp
    next
      case (Inl error)
      show ?thesis
      proof (cases "retryCount + 1 = maxRetries")
        case last: True
        with True att t1 Inl show ?thesis unfolding unfold by (simp add: console_log_def)
      next
        case more: False
        have "length (launches (snd (hardened_retry_loop l success command (retryCount + 1)
                (setTimeout (5000 * (retryCount + 1))
                   (console_log (''Retry attempt '' @ nat_to_string (retryCount + 1) @ ''/''
                                   @ nat_to_string maxRetries @ ''...'') t1)))))
              \<le> length (launches t1) + (maxRetries - (retryCount + 1))"
          using "1.IH" [OF True att [symmetric] Inl more]
          by (simp add: setTimeout_def console_log_def)
        with True att t1 Inl more show ?thesis unfolding unfold by simp
      qed
    qed
  qed
qed

lemma hardened_loop_settles:
  "retryCount < maxRetries \<Longrightarrow>
     (\<exists>e. fst (hardened_retry_loop l success command retryCount t) = Inl e)
     \<or> (\<exists>m. fst (hardened_retry_loop l success command retryCount t) = Inr (JStr m))"
proof (induction l success command retryCount t rule: hardened_retry_loop.induct)
  case (1 l success command retryCount t)
  note unfold = hardened_retry_loop.simps [of l success command retryCount t]
  obtain r t1 where att: "hardened_attempt l success command t = (r, t1)"
    by (cases "hardened_attempt l success command t")
  show ?case
  proof (cases r)
    case (Inr msg)
    with "1.prems" att show ?thesis unfolding unfold by simp
  next
    case (Inl error)
    show ?thesis
    proof (cases "retryCount + 1 = maxRetries")
      case True
      with "1.prems" att Inl show ?thesis unfolding unfold by simp
    next
      case False
      with "1.prems" have "retryCount + 1 < maxRetries" by simp
      from "1.IH" [OF "1.prems" att [symmetric] Inl False this]
      show ?thesis using "1.prems" att Inl False unfolding unfold by simp
    qed
  qed
qed

text \<open>
  C8. For every configuration, every launcher and every trace so far, each of the four
  retrying methods settles, with a rejection or with a success message (never the
  \<^verbatim>\<open>undefined\<close> of a loop left by its condition), having launched at most three
  processes.
\<close>

theorem retry_loop_at_most_three_launches:
  "length (launches (snd (YoutubeDownloader_downloadSingleVideo l basePath v t)))
     \<le> length (launches t) + 3
   \<and> ((\<exists>e. fst (YoutubeDownloader_downloadSingleVideo l basePath v t) = Inl e)
      \<or> (\<exists>m. fst (YoutubeDownloader_downloadSingleVideo l basePath v t) = Inr (JStr m)))
   \<and> length (launches (snd (YoutubeSingleDownloader_downloadSingleVideo basePath v t)))
     \<le> length (launches t) + 3
   \<and> ((\<exists>e. fst (YoutubeSingleDownloader_downloadSingleVideo basePath v t) = Inl e)
      \<or> (\<exists>m. fst (YoutubeSingleDownloader_downloadSingleVideo basePath v t) = Inr (JStr m)))
   \<and> length (launches (snd (hardened_downloadSingleVideo l basePath v t)))
     \<le> length (launches t) + 3
   \<and> ((\<exists>e. fst (hardened_downloadSingleVideo l basePath v t) = Inl e)
      \<or> (\<exists>m. fst (hardened_downloadSingleVideo l basePath v t) = Inr (JStr m)))
   \<and> length (launches (snd (YoutubePlaylistDownloader_downloadPlaylist l basePath p t)))
     \<le> length (launches t) + 3
   \<and> ((\<exists>e. fst (YoutubePlaylistDownloader_downloadPlaylist l basePath p t) = Inl e)
      \<or> (\<exists>m. fst (YoutubePlaylistDownloader_downloadPlaylist l basePath p t) = Inr (JStr m)))"
proof -
  have zero: "0 < maxRetries" by (simp add: maxRetries_def)
  have strict_n: "length (launches (snd (strict_downloadSingleVideo ex opts basePath v t)))
      \<le> length (launches t) + 3" for ex opts
    using strict_loop_launches [of ex "single_command opts basePath v" 0
        "console_log (''Debug: Executing command: '' @ single_command opts basePath v)
           (console_log (''Starting download for video: '' @ to_string (videoUrl v)) t)"]
    by (simp add: strict_downloadSingleVideo_def console_log_def maxRetries_def)
  have strict_r: "(\<exists>e. fst (strict_downloadSingleVideo ex opts basePath v t) = Inl e)
      \<or> (\<exists>m. fst (strict_downloadSingleVideo ex opts basePath v t) = Inr (JStr m))" for ex opts
    using strict_loop_settles [OF zero]
    by (simp add: strict_downloadSingleVideo_def)
  have hs_n: "length (launches (snd (hardened_downloadSingleVideo l basePath v t)))
      \<le> length (launches t) + 3"
    using hardened_loop_launches [of l "''Download completed successfully''"
        "single_command single_hardened_defaultOptions basePath v" 0
        "console_log (''Debug: Starting download with command: ''
                          @ single_command single_hardened_defaultOptions basePath v)
           (console_log (''Starting download for video: '' @ to_string (videoUrl v)) t)"]
    by (simp add: hardened_downloadSingleVideo_def console_log_def maxRetries_def)
  have hs_r: "(\<exists>e. fst (hardened_downloadSingleVideo l basePath v t) = Inl e)
      \<or> (\<exists>m. fst (hardened_downloadSingleVideo l basePath v t) = Inr (JStr m))"
    using hardened_loop_settles [OF zero]
    by (simp add: hardened_downloadSingleVideo_def)
  have pl_n: "length (launches (snd (YoutubePlaylistDownloader_downloadPlaylist l basePath p t)))
      \<le> length (launches t) + 3"
    using hardened_loop_launches [of l "''Download completed with some videos''"
        "playlist_command playlist_hardened_defaultOptions basePath p" 0
        "console_log (''Debug: Starting download with command: ''
                          @ playlist_command playlist_hardened_defaultOptions basePath p) t"]
    by (simp add: YoutubePlaylistDownloader_downloadPlaylist_def console_log_def maxRetries_def)
  have pl_r: "(\<exists>e. fst (YoutubePlaylistDownloader_downloadPlaylist l basePath p t) = Inl e)
      \<or> (\<exists>m. fst (YoutubePlaylistDownloader_downloadPlaylist l basePath p t) = Inr (JStr m))"
    using hardened_loop_settles [OF zero]
    by (simp add: YoutubePlaylistDownloader_downloadPlaylist_def)
  show ?thesis
    unfolding YoutubeDownloader_downloadSingleVideo_def
      YoutubeSingleDownloader_downloadSingleVideo_def
    using strict_n strict_r hs_n hs_r pl_n pl_r by blast
qed

section \<open>Validation\<close>

text \<open>
  C4. A call whose URL is falsy (missing, \<^verbatim>\<open>null\<close>, or the empty string) rejects with the
  method's "URL is required" error and leaves the trace as it was: no process is launched
  and nothing is printed. This holds for every \<open>downloadSingleVideo\<close> and every
  \<open>downloadPlaylist\<close>.
\<close>

theorem missing_url_rejected_before_launch:
  assumes video: "\<not> truthy (videoUrl v)"
    and playlist: "\<not> truthy (playlistUrl p)"
  shows
    "YoutubeDownloader_downloadSingleVideo l basePath v t = (Inl (Error ''Video URL is required''), t)
     \<and> YoutubeSingleDownloader_downloadSingleVideo basePath v t =
         (Inl (Error ''Video URL is required''), t)
     \<and> hardened_downloadSingleVideo l basePath v t = (Inl (Error ''Video URL is required''), t)
     \<and> YoutubePlaylistDownloader_downloadPlaylist l basePath p t =
         (Inl (Error ''Playlist URL is required''), t)
     \<and> basic_downloadPlaylist l basePath p t = (Inl (Error ''Playlist URL is required''), t)"
  using video playlist
  by (simp add: YoutubeDownloader_downloadSingleVideo_def
      YoutubeSingleDownloader_downloadSingleVideo_def strict_downloadSingleVideo_def
      hardened_downloadSingleVideo_def YoutubePlaylistDownloader_downloadPlaylist_def
      basic_downloadPlaylist_def)

theorem missing_url_rejected_before_launch_witness:
  "YoutubeDownloader_downloadSingleVideo (\<lambda>n. \<lparr>chunks = [], exit_code = Some 0\<rparr>) ''/d''
       \<lparr>videoUrl = JStr '''', maxHeight = JNum 720, outputPath = JUndefined\<rparr> [] =
     (Inl (Error ''Video URL is required''), [])
   \<and> launches (snd (YoutubePlaylistDownloader_downloadPlaylist
         (\<lambda>n. \<lparr>chunks = [], exit_code = Some 0\<rparr>) ''/d''
         \<lparr>playlistUrl = JUndefined, maxHeight = JNum 720, outputPath = JUndefined\<rparr> [])) = []"
  using missing_url_rejected_before_launch
    [where l = "\<lambda>n. \<lparr>chunks = [], exit_code = Some 0\<rparr>" and basePath = "''/d''" and t = "[]"
       and v = "\<lparr>videoUrl = JStr '''', maxHeight = JNum 720, outputPath = JUndefined\<rparr>"
       and p = "\<lparr>playlistUrl = JUndefined, maxHeight = JNum 720, outputPath = JUndefined\<rparr>"]
  by simp

section \<open>What the final error reports\<close>

text \<open>
  C9. When the three passes are all rejected, the error thrown names the exit code of the
  third process and carries the text that process wrote to its standard error, and nothing
  written by the first two: \<open>errorLog\<close> is a local of the executor and starts empty at each
  launch.
\<close>

theorem final_error_carries_last_attempt_stderr_only:
  assumes not0: "\<And>n. n < 3 \<Longrightarrow> exit_code (l n) \<noteq> Some 0"
    and not1: "\<And>n. n < 3 \<Longrightarrow> exit_code (l n) \<noteq> Some 1"
    and video: "truthy (videoUrl v)"
    and playlist: "truthy (playlistUrl p)"
  shows
    "fst (YoutubePlaylistDownloader_downloadPlaylist l basePath p []) =
       Inl (Error (''Download failed with code '' @ code_to_string (exit_code (l 2))
              @ newline @ ''Error log: '' @ stderr_text (chunks (l 2))))
     \<and> fst (YoutubeDownloader_downloadSingleVideo l basePath v []) =
       Inl (Error (''Download failed (attempt 3/3):'' @ newline
              @ ''Exit code: '' @ code_to_string (exit_code (l 2)) @ newline
              @ ''Error log: '' @ stderr_text (chunks (l 2))))"
  using video playlist
  by (simp add: YoutubePlaylistDownloader_downloadPlaylist_def
      YoutubeDownloader_downloadSingleVideo_def strict_downloadSingleVideo_def
      hardened_all_fail(1) [OF not0 not1] strict_all_fail(1) [OF not0] console_log_def)

theorem final_error_carries_last_attempt_stderr_only_witness:
  "fst (YoutubePlaylistDownloader_downloadPlaylist
          (\<lambda>n. \<lparr>chunks = [Stderr (if n = 0 then ''first'' else if n = 1 then ''second''
                                    else ''third'')],
                  exit_code = Some 2\<rparr>) ''/d''
          \<lparr>playlistUrl = JStr ''u'', maxHeight = JUndefined, outputPath = JUndefined\<rparr> []) =
     Inl (Error (''Download failed with code 2'' @ newline @ ''Error log: third''))
   \<and> fst (YoutubeDownloader_downloadSingleVideo
          (\<lambda>n. \<lparr>chunks = [Stderr (if n = 0 then ''first'' else if n = 1 then ''second''
                                    else ''third'')],
                  exit_code = Some 2\<rparr>) ''/d''
          \<lparr>videoUrl = JStr ''u'', maxHeight = JUndefined, outputPath = JUndefined\<rparr> []) =
     Inl (Error (''Download failed (attempt 3/3):'' @ newline @ ''Exit code: 2'' @ newline
            @ ''Error log: third''))"
  using final_error_carries_last_attempt_stderr_only
    [where l = "\<lambda>n. \<lparr>chunks = [Stderr (if n = 0 then ''first'' else if n = 1 then ''second''
                                    else ''third'')],
                  exit_code = Some 2\<rparr>"
       and basePath = "''/d''"
       and v = "\<lparr>videoUrl = JStr ''u'', maxHeight = JUndefined, outputPath = JUndefined\<rparr>"
       and p = "\<lparr>playlistUrl = JStr ''u'', maxHeight = JUndefined, outputPath = JUndefined\<rparr>"]
  by (simp add: int_to_string_def nat_to_string.simps digit_char_def)

section \<open>The quality-selection expression\<close>

lemma int_to_string_720: "int_to_string 720 = ''720''"
  by (simp add: int_to_string_def nat_to_string.simps digit_char_def)

lemma sint_54_range: "- (2 ^ 53) \<le> sint (n :: 54 word) \<and> sint n < 2 ^ 53"
  using sint_ge [of n] sint_lt [of n] by simp

text \<open>
  C2, as stated, fails on the basic playlist method: with a height cap of 720,
  \<open>YoutubeDownloader.downloadPlaylist\<close> (and its copy in the second
  \<open>YoutubePlaylistDownloader\<close>) builds the shorter expression
  \<open>bestvideo[height<=720]+bestaudio/best\<close>, without the capped fallback.
\<close>

theorem basic_playlist_format_counterexample:
  \<open>basic_formatString (JNum 720) = ''bestvideo[height<=720]+bestaudio/best''
   \<and> basic_formatString (JNum 720) \<noteq> ''bestvideo[height<=720]+bestaudio/best[height<=720]/best''
   \<and> basic_playlist_command ''/d''
         \<lparr>playlistUrl = JStr ''u'', maxHeight = JNum 720, outputPath = JUndefined\<rparr> =
       ''yt-dlp -f "bestvideo[height<=720]+bestaudio/best" -o "/d/%(playlist_title)s/%(playlist_index)s - %(title)s.%(ext)s" u''\<close>
  by (simp add: basic_formatString_def basic_playlist_command_def downloadPath_def int_to_string_720)

text \<open>
  C2, amended. A numeric height cap is an integer \<open>n\<close> with \<open>-2^53 \<le> n < 2^53\<close>, and it is
  printed as its decimal numeral. With a truthy height cap \<open>h\<close>, so printed, every
  \<open>downloadSingleVideo\<close> and the retrying \<open>downloadPlaylist\<close> place
  \<open>bestvideo[height<=h]+bestaudio/best[height<=h]/best\<close> after \<^verbatim>\<open>-f\<close>, and the basic
  \<open>downloadPlaylist\<close> places \<open>bestvideo[height<=h]+bestaudio/best\<close>; with no height cap
  all of them place exactly \<open>bestvideo+bestaudio/best\<close>.
\<close>

theorem format_string_by_builder:
  assumes "truthy h"
  shows
    \<open>- (2 ^ 53) \<le> sint n \<and> sint n < 2 ^ 53 \<and> decimal_of (sint n) (to_string (JNum n))
     \<and> formatString h =
       ''bestvideo[height<='' @ to_string h @ '']+bestaudio/best[height<='' @ to_string h @ '']/best''
     \<and> basic_formatString h = ''bestvideo[height<='' @ to_string h @ '']+bestaudio/best''
     \<and> formatString JUndefined = ''bestvideo+bestaudio/best''
     \<and> basic_formatString JUndefined = ''bestvideo+bestaudio/best''
     \<and> single_command defaultOptions basePath
           \<lparr>videoUrl = url, maxHeight = h, outputPath = out\<rparr> =
         ''yt-dlp '' @ defaultOptions @ '' -f "bestvideo[height<='' @ to_string h
           @ '']+bestaudio/best[height<='' @ to_string h @ '']/best" --output "''
           @ downloadPath out basePath @ ''/%(title)s.%(ext)s" "'' @ to_string url @ ''"''
     \<and> playlist_command defaultOptions basePath
           \<lparr>playlistUrl = url, maxHeight = h, outputPath = out\<rparr> =
         ''yt-dlp '' @ defaultOptions @ '' -f "bestvideo[height<='' @ to_string h
           @ '']+bestaudio/best[height<='' @ to_string h @ '']/best" -o "''
           @ downloadPath out basePath
           @ ''/%(playlist_title)s/%(playlist_index)s - %(title)s.%(ext)s" "''
           @ to_string url @ ''"''
     \<and> basic_playlist_command basePath
           \<lparr>playlistUrl = url, maxHeight = h, outputPath = out\<rparr> =
         ''yt-dlp -f "bestvideo[height<='' @ to_string h @ '']+bestaudio/best" -o "''
           @ downloadPath out basePath
           @ ''/%(playlist_title)s/%(playlist_index)s - %(title)s.%(ext)s" '' @ to_string url
     \<and> single_command defaultOptions basePath
           \<lparr>videoUrl = url, maxHeight = JUndefined, outputPath = out\<rparr> =
         ''yt-dlp '' @ defaultOptions @ '' -f "bestvideo+bestaudio/best" --output "''
           @ downloadPath out basePath @ ''/%(title)s.%(ext)s" "'' @ to_string url @ ''"''
     \<and> playlist_command defaultOptions basePath
           \<lparr>playlistUrl = url, maxHeight = JUndefined, outputPath = out\<rparr> =
         ''yt-dlp '' @ defaultOptions @ '' -f "bestvideo+bestaudio/best" -o "''
           @ downloadPath out basePath
           @ ''/%(playlist_title)s/%(playlist_index)s - %(title)s.%(ext)s" "''
           @ to_string url @ ''"''
     \<and> basic_playlist_command basePath
           \<lparr>playlistUrl = url, maxHeight = JUndefined, outputPath = out\<rparr> =
         ''yt-dlp -f "bestvideo+bestaudio/best" -o "'' @ downloadPath out basePath
           @ ''/%(playlist_title)s/%(playlist_index)s - %(title)s.%(ext)s" '' @ to_string url\<close>
  using assms sint_54_range [of n] int_to_string_decimal [of "sint n"]
  by (simp add: formatString_def basic_formatString_def single_command_def playlist_command_def
      basic_playlist_command_def)

theorem format_string_by_builder_witness:
  \<open>to_string (JNum 720) = ''720''
   \<and> decimal_of 720 ''720''
   \<and> formatString (JNum 720) = ''bestvideo[height<=720]+bestaudio/best[height<=720]/best''
   \<and> basic_formatString (JNum 720) = ''bestvideo[height<=720]+bestaudio/best''
   \<and> formatString JUndefined = ''bestvideo+bestaudio/best''
   \<and> basic_formatString JUndefined = ''bestvideo+bestaudio/best''
   \<and> playlist_command ''--geo-bypass'' ''/d''
         \<lparr>playlistUrl = JStr ''u'', maxHeight = JNum 720, outputPath = JUndefined\<rparr> =
       ''yt-dlp --geo-bypass -f "bestvideo[height<=720]+bestaudio/best[height<=720]/best" -o "/d/%(playlist_title)s/%(playlist_index)s - %(title)s.%(ext)s" "u"''\<close>
  using format_string_by_builder
    [where h = "JNum 720" and n = 720 and url = "JStr ''u''" and out = JUndefined
       and basePath = "''/d''" and defaultOptions = "''--geo-bypass''"]
  by (simp add: int_to_string_720 downloadPath_def)

text \<open>
  C10. A falsy height cap (0, \<^verbatim>\<open>NaN\<close>, \<^verbatim>\<open>null\<close>, the empty string, \<^verbatim>\<open>false\<close>) selects
  \<open>bestvideo+bestaudio/best\<close>, and the command built is the one built for a configuration
  without a height cap, in the single-video and in both playlist builders.
\<close>

theorem falsy_height_cap_is_no_cap:
  assumes "\<not> truthy h"
  shows
    "formatString h = ''bestvideo+bestaudio/best''
     \<and> basic_formatString h = ''bestvideo+bestaudio/best''
     \<and> single_command defaultOptions basePath \<lparr>videoUrl = url, maxHeight = h, outputPath = out\<rparr> =
       single_command defaultOptions basePath
         \<lparr>videoUrl = url, maxHeight = JUndefined, outputPath = out\<rparr>
     \<and> playlist_command defaultOptions basePath
         \<lparr>playlistUrl = url, maxHeight = h, outputPath = out\<rparr> =
       playlist_command defaultOptions basePath
         \<lparr>playlistUrl = url, maxHeight = JUndefined, outputPath = out\<rparr>
     \<and> basic_playlist_command basePath \<lparr>playlistUrl = url, maxHeight = h, outputPath = out\<rparr> =
       basic_playlist_command basePath
         \<lparr>playlistUrl = url, maxHeight = JUndefined, outputPath = out\<rparr>"
  using assms
  by (simp add: formatString_def basic_formatString_def single_command_def playlist_command_def
      basic_playlist_command_def)

theorem falsy_height_cap_is_no_cap_witness:
  \<open>formatString (JNum 0) = ''bestvideo+bestaudio/best''
   \<and> basic_formatString (JNum 0) = ''bestvideo+bestaudio/best''
   \<and> single_command ''--geo-bypass'' ''/d''
         \<lparr>videoUrl = JStr ''u'', maxHeight = JNum 0, outputPath = JUndefined\<rparr> =
       ''yt-dlp --geo-bypass -f "bestvideo+bestaudio/best" --output "/d/%(title)s.%(ext)s" "u"''\<close>
  using falsy_height_cap_is_no_cap
    [where h = "JNum 0" and url = "JStr ''u''" and out = JUndefined and basePath = "''/d''"
       and defaultOptions = "''--geo-bypass''"]
  by (simp add: single_command_def formatString_def downloadPath_def)

section \<open>The dependency check\<close>

text \<open>
  C6. \<open>checkDependencies\<close> never throws: it resolves with \<^verbatim>\<open>true\<close> exactly when neither
  version query reports an error, and otherwise resolves with \<^verbatim>\<open>false\<close> after printing
  the one diagnostic line. Both queries are launched in every case.
\<close>

theorem check_dependencies_both_or_false:
  "checkDependencies run =
     (Inr (fst (run ''yt-dlp --version'') = None \<and> fst (run ''ffmpeg -version'') = None),
      [Exec ''yt-dlp --version'', Exec ''ffmpeg -version'']
      @ (if fst (run ''yt-dlp --version'') = None \<and> fst (run ''ffmpeg -version'') = None
         then []
         else [ConsoleError ''Missing dependencies. Please install yt-dlp and ffmpeg'']))"
proof (cases "run ''yt-dlp --version''")
  case yt: (fields e1 out1 err1)
  show ?thesis
  proof (cases "run ''ffmpeg -version''")
    case ff: (fields e2 out2 err2)
    show ?thesis
      by (cases e1; cases e2)
        (simp_all add: checkDependencies_def executeCommand_def yt ff console_error_def)
  qed
qed

theorem check_dependencies_both_or_false_witness:
  "checkDependencies (\<lambda>c. (None, ''1.0'', [])) =
     (Inr True, [Exec ''yt-dlp --version'', Exec ''ffmpeg -version''])
   \<and> checkDependencies
       (\<lambda>c. (if c = ''ffmpeg -version'' then Some (Error ''not found'') else None, [], [])) =
     (Inr False, [Exec ''yt-dlp --version'', Exec ''ffmpeg -version'',
                  ConsoleError ''Missing dependencies. Please install yt-dlp and ffmpeg''])
   \<and> checkDependencies
       (\<lambda>c. (if c = ''yt-dlp --version'' then Some (Error ''not found'') else None, [], [])) =
     (Inr False, [Exec ''yt-dlp --version'', Exec ''ffmpeg -version'',
                  ConsoleError ''Missing dependencies. Please install yt-dlp and ffmpeg''])
   \<and> checkDependencies (\<lambda>c. (Some (Error ''not found''), [], [])) =
     (Inr False, [Exec ''yt-dlp --version'', Exec ''ffmpeg -version'',
                  ConsoleError ''Missing dependencies. Please install yt-dlp and ffmpeg''])"
  using check_dependencies_both_or_false [of "\<lambda>c. (None, ''1.0'', [])"]
    check_dependencies_both_or_false
      [of "\<lambda>c. (if c = ''ffmpeg -version'' then Some (Error ''not found'') else None, [], [])"]
    check_dependencies_both_or_false
      [of "\<lambda>c. (if c = ''yt-dlp --version'' then Some (Error ''not found'') else None, [], [])"]
    check_dependencies_both_or_false [of "\<lambda>c. (Some (Error ''not found''), [], [])"]
  by simp

section \<open>The batch method\<close>

lemma map_callback_eq:
  "map_callback downloadPlaylist launchers i (ps ! i) console =
     (Inr JUndefined, console @ [item_line downloadPlaylist launchers ps i])"
  by (cases "fst (downloadPlaylist (launchers i) (ps ! i) [])")
    (simp_all add: map_callback_def catch_log_def then_log_def item_line_def console_log_def
      console_error_def)

lemma settle_item_skip:
  "\<not> (i < length ps \<and> i \<notin> set (settled_items st)) \<Longrightarrow>
     settle_item downloadPlaylist launchers ps i st = st"
  by (auto simp add: settle_item_def)

lemma settle_item_pending:
  assumes "i < length ps" and "i \<notin> set (settled_items st)" and "batch_result st = None"
  shows "settle_item downloadPlaylist launchers ps i st =
     (if remaining st - 1 = 0
      then st\<lparr>settled_items := settled_items st @ [i],
              remaining := 0,
              batch_console := batch_console st @ [item_line downloadPlaylist launchers ps i,
                                                  ConsoleLog ''All downloads completed!''],
              batch_result := Some (Inr JUndefined)\<rparr>
      else st\<lparr>settled_items := settled_items st @ [i],
              remaining := remaining st - 1,
              batch_console := batch_console st @ [item_line downloadPlaylist launchers ps i]\<rparr>)"
  using assms
  by (simp add: settle_item_def map_callback_eq promise_all_reaction_def console_log_def)

lemma distinct_below_full:
  assumes "distinct ds" and "set ds \<subseteq> {..<n}"
  shows "length ds \<le> n" and "length ds = n \<longleftrightarrow> set ds = {..<n}"
proof -
  have card: "card (set ds) = length ds"
    using assms(1) by (simp add: distinct_card)
  have "card (set ds) \<le> card {..<n}"
    using assms(2) by (intro card_mono) simp_all
  with card show "length ds \<le> n" by simp
  show "length ds = n \<longleftrightarrow> set ds = {..<n}"
  proof
    assume "length ds = n"
    with card have "card (set ds) = card {..<n}" by simp
    with assms(2) show "set ds = {..<n}"
      by (intro card_subset_eq) simp_all
  next
    assume "set ds = {..<n}"
    with card show "length ds = n" by simp
  qed
qed

lemma batch_after_snoc:
  "batch_after downloadPlaylist launchers ps (schedule @ [i]) =
     settle_item downloadPlaylist launchers ps i
       (batch_after downloadPlaylist launchers ps schedule)"
  by (simp add: batch_after_def)

text \<open>
  What holds of a batch after any sequence of deliveries: the settled items are those of
  the array that were delivered, each once; \<^verbatim>\<open>Promise.all\<close> waits for the others; the
  console holds the first line, one line per settled item in the order of settling, and
  the last line only when all have settled; and the call has an outcome, the resolution,
  only then.
\<close>

lemma batch_invariant:
  assumes "ps \<noteq> []"
  shows
    "item_traces (batch_after downloadPlaylist launchers ps schedule) =
       item_traces (batch_started downloadPlaylist launchers ps)
     \<and> distinct (settled_items (batch_after downloadPlaylist launchers ps schedule))
     \<and> set (settled_items (batch_after downloadPlaylist launchers ps schedule)) =
         set schedule \<inter> {..<length ps}
     \<and> remaining (batch_after downloadPlaylist launchers ps schedule) =
         length ps - length (settled_items (batch_after downloadPlaylist launchers ps schedule))
     \<and> batch_console (batch_after downloadPlaylist launchers ps schedule) =
         ConsoleLog (''Starting download of '' @ nat_to_string (length ps) @ '' playlists...'')
         # map (item_line downloadPlaylist launchers ps)
             (settled_items (batch_after downloadPlaylist launchers ps schedule))
         @ (if {..<length ps} \<subseteq> set schedule
            then [ConsoleLog ''All downloads completed!''] else [])
     \<and> batch_result (batch_after downloadPlaylist launchers ps schedule) =
         (if {..<length ps} \<subseteq> set schedule then Some (Inr JUndefined) else None)"
proof (induction schedule rule: rev_induct)
  case Nil
  from assms show ?case
    by (auto simp add: batch_after_def batch_started_def console_log_def)
next
  case (snoc i schedule)
  define R where "R = batch_after downloadPlaylist launchers ps schedule"
  define ds where "ds = settled_items R"
  from snoc.IH have its: "item_traces R = item_traces (batch_started downloadPlaylist launchers ps)"
    and dist: "distinct ds"
    and set: "set ds = set schedule \<inter> {..<length ps}"
    and rem: "remaining R = length ps - length ds"
    and con: "batch_console R =
         ConsoleLog (''Starting download of '' @ nat_to_string (length ps) @ '' playlists...'')
         # map (item_line downloadPlaylist launchers ps) ds
         @ (if {..<length ps} \<subseteq> set schedule
            then [ConsoleLog ''All downloads completed!''] else [])"
    and res: "batch_result R =
         (if {..<length ps} \<subseteq> set schedule then Some (Inr JUndefined) else None)"
    unfolding R_def ds_def by blast+
  have step: "batch_after downloadPlaylist launchers ps (schedule @ [i]) =
      settle_item downloadPlaylist launchers ps i R"
    unfolding R_def by (rule batch_after_snoc)
  show ?case
  proof (cases "i < length ps \<and> i \<notin> set ds")
    case False
    then have same: "settle_item downloadPlaylist launchers ps i R = R"
      unfolding ds_def by (rule settle_item_skip)
    from False set have sets: "set (schedule @ [i]) \<inter> {..<length ps} = set ds"
      by auto
    from False set have full: "{..<length ps} \<subseteq> set (schedule @ [i])
        \<longleftrightarrow> {..<length ps} \<subseteq> set schedule"
      by auto
    show ?thesis
      unfolding step same full sets
      using its dist rem con res unfolding ds_def by simp
  next
    case True
    then have below: "i < length ps" and fresh: "i \<notin> set ds" by simp_all
    from set have sub: "set ds \<subseteq> {..<length ps}" by simp
    from fresh below set have notfull: "\<not> {..<length ps} \<subseteq> set schedule"
      by auto
    with res have pending: "batch_result R = None" by simp
    from con notfull have con': "batch_console R =
        ConsoleLog (''Starting download of '' @ nat_to_string (length ps) @ '' playlists...'')
        # map (item_line downloadPlaylist launchers ps) ds"
      by simp
    have dist': "distinct (ds @ [i])" using dist fresh by simp
    have sub': "set (ds @ [i]) \<subseteq> {..<length ps}" using sub below by simp
    have set': "set (ds @ [i]) = set (schedule @ [i]) \<inter> {..<length ps}"
      using set below by auto
    have lt: "length ds < length ps"
      using distinct_below_full(1) [OF dist' sub'] by simp
    have full': "{..<length ps} \<subseteq> set (schedule @ [i]) \<longleftrightarrow> length ds + 1 = length ps"
      using distinct_below_full(2) [OF dist' sub'] set' by auto
    have last: "remaining R - 1 = 0 \<longleftrightarrow> length ds + 1 = length ps"
      using rem lt by auto
    have fresh': "i \<notin> set (settled_items R)" using fresh by (simp add: ds_def)
    note after = settle_item_pending [OF below fresh' pending,
        of downloadPlaylist launchers, unfolded last, folded ds_def]
    show ?thesis
    proof (cases "length ds + 1 = length ps")
      case True
      with after have "settle_item downloadPlaylist launchers ps i R =
          R\<lparr>settled_items := ds @ [i], remaining := 0,
            batch_console := batch_console R
              @ [item_line downloadPlaylist launchers ps i,
                 ConsoleLog ''All downloads completed!''],
            batch_result := Some (Inr JUndefined)\<rparr>"
        by simp
      then show ?thesis
        unfolding step using True full' its dist' set' con' by simp
    next
      case False
      with after have "settle_item downloadPlaylist launchers ps i R =
          R\<lparr>settled_items := ds @ [i], remaining := remaining R - 1,
            batch_console := batch_console R @ [item_line downloadPlaylist launchers ps i]\<rparr>"
        by simp
      then show ?thesis
        unfolding step using False full' its dist' set' con' rem pending by simp
    qed
  qed
qed

lemma started_item_traces:
  "item_traces (batch_started downloadPlaylist launchers ps) =
     map (\<lambda>i. snd (downloadPlaylist (launchers i) (ps ! i) [])) [0..<length ps]"
proof -
  have "map (\<lambda>(index, playlist). snd (downloadPlaylist (launchers index) playlist []))
          (enumerate 0 ps) =
        map (\<lambda>i. snd (downloadPlaylist (launchers i) (ps ! i) [])) [0..<length ps]"
    by (rule nth_equalityI) (simp_all add: nth_enumerate_eq)
  then show ?thesis by (simp add: batch_started_def)
qed

lemma item_line_fun:
  "item_line downloadPlaylist launchers ps =
     (\<lambda>i. case fst (downloadPlaylist (launchers i) (ps ! i) []) of
            Inr v \<Rightarrow> ConsoleLog (''Playlist '' @ nat_to_string (i + 1)
                                   @ '' completed successfully'')
          | Inl e \<Rightarrow> ConsoleError (''Playlist '' @ nat_to_string (i + 1) @ '' failed: ''
                                     @ message e))"
  by (rule ext) (simp add: item_line_def)

lemma map_callback_value:
  "map_callback downloadPlaylist launchers i playlist console =
     (Inr JUndefined,
      console @ [case fst (downloadPlaylist (launchers i) playlist []) of
                   Inr v \<Rightarrow> ConsoleLog (''Playlist '' @ nat_to_string (i + 1)
                                          @ '' completed successfully'')
                 | Inl e \<Rightarrow> ConsoleError (''Playlist '' @ nat_to_string (i + 1)
                                            @ '' failed: '' @ message e)])"
  by (cases "fst (downloadPlaylist (launchers i) playlist [])")
    (simp_all add: map_callback_def catch_log_def then_log_def console_log_def console_error_def)

lemma basic_downloadPlaylist_eq:
  "truthy (playlistUrl p) \<Longrightarrow>
     basic_downloadPlaylist l basePath p [] =
       (if exit_code (l 0) = Some 0 then Inr (JStr ''Download completed successfully'')
        else Inl (Error (''Download failed with code '' @ code_to_string (exit_code (l 0)))),
        Exec (basic_playlist_command basePath p) # map echo_event (chunks (l 0)))"
  by (simp add: basic_downloadPlaylist_def exec_def fold_echo_data)

text \<open>
  C7. Given something that is not an array, or an empty array, \<open>downloadMultiplePlaylists\<close>
  rejects with its "Please provide an array" error, whatever the event loop does: nothing
  has been printed and no item has been started.
\<close>

theorem batch_rejects_non_array_and_empty:
  "downloadMultiplePlaylists downloadPlaylist launchers schedule NotAnArray =
     \<lparr>item_traces = [], settled_items = [], remaining = 0, batch_console = [],
      batch_result = Some (Inl (Error ''Please provide an array of playlist configurations''))\<rparr>
   \<and> downloadMultiplePlaylists downloadPlaylist launchers schedule (Array []) =
     \<lparr>item_traces = [], settled_items = [], remaining = 0, batch_console = [],
      batch_result = Some (Inl (Error ''Please provide an array of playlist configurations''))\<rparr>"
  by (simp add: downloadMultiplePlaylists_def)

text \<open>
  C5. For a non-empty array, whatever \<open>downloadPlaylist\<close> does on each item and in whatever
  order the items settle: every item is started and runs its own download; each item that
  has settled has printed its own line, "completed successfully" if its download resolved
  and "failed:" with the error message if it rejected; the call never rejects; and it has
  resolved, printing "All downloads completed!" after the lines of all the items, exactly
  when every item of the array has settled. While an item is still running the call is
  pending.
\<close>

theorem batch_resolves_when_every_item_has_settled:
  assumes nonempty: "ps \<noteq> []"
  shows
    "batch_result (downloadMultiplePlaylists downloadPlaylist launchers schedule (Array ps)) =
       (if {..<length ps} \<subseteq> set schedule then Some (Inr JUndefined) else None)
     \<and> item_traces (downloadMultiplePlaylists downloadPlaylist launchers schedule (Array ps)) =
       map (\<lambda>i. snd (downloadPlaylist (launchers i) (ps ! i) [])) [0..<length ps]
     \<and> distinct
         (settled_items (downloadMultiplePlaylists downloadPlaylist launchers schedule (Array ps)))
     \<and> set (settled_items
              (downloadMultiplePlaylists downloadPlaylist launchers schedule (Array ps))) =
       set schedule \<inter> {..<length ps}
     \<and> batch_console (downloadMultiplePlaylists downloadPlaylist launchers schedule (Array ps)) =
       ConsoleLog (''Starting download of '' @ nat_to_string (length ps) @ '' playlists...'')
       # map (\<lambda>i. case fst (downloadPlaylist (launchers i) (ps ! i) []) of
                    Inr v \<Rightarrow> ConsoleLog (''Playlist '' @ nat_to_string (i + 1)
                                           @ '' completed successfully'')
                  | Inl e \<Rightarrow> ConsoleError (''Playlist '' @ nat_to_string (i + 1)
                                             @ '' failed: '' @ message e))
           (settled_items
              (downloadMultiplePlaylists downloadPlaylist launchers schedule (Array ps)))
       @ (if {..<length ps} \<subseteq> set schedule
          then [ConsoleLog ''All downloads completed!''] else [])"
proof -
  from nonempty have run:
    "downloadMultiplePlaylists downloadPlaylist launchers schedule (Array ps) =
       batch_after downloadPlaylist launchers ps schedule"
    by (simp add: downloadMultiplePlaylists_def)
  show ?thesis
    unfolding run
    using batch_invariant [OF nonempty, of downloadPlaylist launchers schedule]
    by (simp add: started_item_traces item_line_fun)
qed

theorem batch_resolves_when_every_item_has_settled_witness:
  "downloadMultiplePlaylists (\<lambda>l. basic_downloadPlaylist l ''/d'')
      (\<lambda>i n. \<lparr>chunks = [], exit_code = Some (if i = 1 then 2 else 0)\<rparr>) [2, 0]
      (Array [\<lparr>playlistUrl = JStr ''a'', maxHeight = JUndefined, outputPath = JUndefined\<rparr>,
              \<lparr>playlistUrl = JStr ''b'', maxHeight = JUndefined, outputPath = JUndefined\<rparr>,
              \<lparr>playlistUrl = JStr ''c'', maxHeight = JUndefined, outputPath = JUndefined\<rparr>]) =
     \<lparr>item_traces =
        [[Exec (basic_playlist_command ''/d''
            \<lparr>playlistUrl = JStr ''a'', maxHeight = JUndefined, outputPath = JUndefined\<rparr>)],
         [Exec (basic_playlist_command ''/d''
            \<lparr>playlistUrl = JStr ''b'', maxHeight = JUndefined, outputPath = JUndefined\<rparr>)],
         [Exec (basic_playlist_command ''/d''
            \<lparr>playlistUrl = JStr ''c'', maxHeight = JUndefined, outputPath = JUndefined\<rparr>)]],
      settled_items = [2, 0],
      remaining = 1,
      batch_console =
        [ConsoleLog ''Starting download of 3 playlists...'',
         ConsoleLog ''Playlist 3 completed successfully'',
         ConsoleLog ''Playlist 1 completed successfully''],
      batch_result = None\<rparr>
   \<and> downloadMultiplePlaylists (\<lambda>l. basic_downloadPlaylist l ''/d'')
      (\<lambda>i n. \<lparr>chunks = [], exit_code = Some (if i = 1 then 2 else 0)\<rparr>) [2, 0, 1]
      (Array [\<lparr>playlistUrl = JStr ''a'', maxHeight = JUndefined, outputPath = JUndefined\<rparr>,
              \<lparr>playlistUrl = JStr ''b'', maxHeight = JUndefined, outputPath = JUndefined\<rparr>,
              \<lparr>playlistUrl = JStr ''c'', maxHeight = JUndefined, outputPath = JUndefined\<rparr>]) =
     \<lparr>item_traces =
        [[Exec (basic_playlist_command ''/d''
            \<lparr>playlistUrl = JStr ''a'', maxHeight = JUndefined, outputPath = JUndefined\<rparr>)],
         [Exec (basic_playlist_command ''/d''
            \<lparr>playlistUrl = JStr ''b'', maxHeight = JUndefined, outputPath = JUndefined\<rparr>)],
         [Exec (basic_playlist_command ''/d''
            \<lparr>playlistUrl = JStr ''c'', maxHeight = JUndefined, outputPath = JUndefined\<rparr>)]],
      settled_items = [2, 0, 1],
      remaining = 0,
      batch_console =
        [ConsoleLog ''Starting download of 3 playlists...'',
         ConsoleLog ''Playlist 3 completed successfully'',
         ConsoleLog ''Playlist 1 completed successfully'',
         ConsoleError ''Playlist 2 failed: Download failed with code 2'',
         ConsoleLog ''All downloads completed!''],
      batch_result = Some (Inr JUndefined)\<rparr>"
proof -
  let ?dl = "\<lambda>l. basic_downloadPlaylist l ''/d''"
  let ?ls = "\<lambda>(i::nat) (n::nat). \<lparr>chunks = [], exit_code = Some (if i = 1 then 2 else (0::int))\<rparr>"
  let ?ps = "[\<lparr>playlistUrl = JStr ''a'', maxHeight = JUndefined, outputPath = JUndefined\<rparr>,
              \<lparr>playlistUrl = JStr ''b'', maxHeight = JUndefined, outputPath = JUndefined\<rparr>,
              \<lparr>playlistUrl = JStr ''c'', maxHeight = JUndefined, outputPath = JUndefined\<rparr>]"
  have nonempty: "?ps \<noteq> []" by simp
  note partial = batch_resolves_when_every_item_has_settled
    [OF nonempty, of ?dl ?ls "[2, 0]"]
  note complete = batch_resolves_when_every_item_has_settled
    [OF nonempty, of ?dl ?ls "[2, 0, 1]"]
  have digits: "nat_to_string 1 = ''1''" "nat_to_string 2 = ''2''" "nat_to_string 3 = ''3''"
    "nat_to_string (Suc 0) = ''1''" "nat_to_string (Suc (Suc 0)) = ''2''"
    "nat_to_string (Suc (Suc (Suc 0))) = ''3''" "int_to_string 2 = ''2''"
    by (simp_all add: int_to_string_def nat_to_string.simps digit_char_def)
  let ?two = "downloadMultiplePlaylists ?dl ?ls [2, 0] (Array ?ps)"
  let ?three = "downloadMultiplePlaylists ?dl ?ls [2, 0, 1] (Array ?ps)"
  have direct: "?two =
     \<lparr>item_traces =
        [[Exec (basic_playlist_command ''/d''
            \<lparr>playlistUrl = JStr ''a'', maxHeight = JUndefined, outputPath = JUndefined\<rparr>)],
         [Exec (basic_playlist_command ''/d''
            \<lparr>playlistUrl = JStr ''b'', maxHeight = JUndefined, outputPath = JUndefined\<rparr>)],
         [Exec (basic_playlist_command ''/d''
            \<lparr>playlistUrl = JStr ''c'', maxHeight = JUndefined, outputPath = JUndefined\<rparr>)]],
      settled_items = [2, 0],
      remaining = 1,
      batch_console =
        [ConsoleLog ''Starting download of 3 playlists...'',
         ConsoleLog ''Playlist 3 completed successfully'',
         ConsoleLog ''Playlist 1 completed successfully''],
      batch_result = None\<rparr>"
    "?three =
     \<lparr>item_traces =
        [[Exec (basic_playlist_command ''/d''
            \<lparr>playlistUrl = JStr ''a'', maxHeight = JUndefined, outputPath = JUndefined\<rparr>)],
         [Exec (basic_playlist_command ''/d''
            \<lparr>playlistUrl = JStr ''b'', maxHeight = JUndefined, outputPath = JUndefined\<rparr>)],
         [Exec (basic_playlist_command ''/d''
            \<lparr>playlistUrl = JStr ''c'', maxHeight = JUndefined, outputPath = JUndefined\<rparr>)]],
      settled_items = [2, 0, 1],
      remaining = 0,
      batch_console =
        [ConsoleLog ''Starting download of 3 playlists...'',
         ConsoleLog ''Playlist 3 completed successfully'',
         ConsoleLog ''Playlist 1 completed successfully'',
         ConsoleError ''Playlist 2 failed: Download failed with code 2'',
         ConsoleLog ''All downloads completed!''],
      batch_result = Some (Inr JUndefined)\<rparr>"
    by (simp_all add: downloadMultiplePlaylists_def batch_after_def batch_started_def
        settle_item_def map_callback_value promise_all_reaction_def console_log_def
        basic_downloadPlaylist_eq digits)
  from partial complete direct show ?thesis by simp
qed

section \<open>Exit code 1\<close>

text \<open>
  The module youtube-single-downloader.js never binds \<^verbatim>\<open>exec\<close>: each pass of its loop
  rejects before a process exists, and the loop runs out after two delays, whatever the
  launcher would have done.
\<close>

lemma strict_unbound_loop:
  "strict_retry_loop None command 0 t0 =
     (Inl (ReferenceError ''exec is not defined''),
      t0 @ [ConsoleLog ''Retry attempt 1/3...'', Sleep 2000,
            ConsoleLog ''Retry attempt 2/3...'', Sleep 2000])"
  by (simp add: strict_unfold strict_attempt_unbound maxRetries_def console_log_def
      setTimeout_def nat_to_string.simps digit_char_def)

lemma single_downloader_never_launches:
  "truthy (videoUrl v) \<Longrightarrow>
     fst (YoutubeSingleDownloader_downloadSingleVideo basePath v []) =
       Inl (ReferenceError ''exec is not defined'')
     \<and> timeline (snd (YoutubeSingleDownloader_downloadSingleVideo basePath v [])) =
       [Sleep 2000, Sleep 2000]"
  by (simp add: YoutubeSingleDownloader_downloadSingleVideo_def strict_downloadSingleVideo_def
      strict_unbound_loop console_log_def)

text \<open>
  A first process that exits with 0 or 1 ends a hardened loop at once; the basic playlist
  method spelled out; a batch of one item after that item has settled.
\<close>

lemma hardened_first_accepted:
  assumes "exit_code (l 0) = Some 0 \<or> exit_code (l 0) = Some 1" and "launches t0 = []"
  shows "hardened_retry_loop l success command 0 t0 =
           (Inr (JStr success), t0 @ Exec command # map echo_event (chunks (l 0)))"
  using assms
  by (auto simp add: hardened_unfold hardened_attempt_eq maxRetries_def)

lemma single_item_batch:
  "batch_after downloadPlaylist launchers [p] [0] =
     \<lparr>item_traces = [snd (downloadPlaylist (launchers 0) p [])],
      settled_items = [0],
      remaining = 0,
      batch_console =
        [ConsoleLog ''Starting download of 1 playlists...'',
         item_line downloadPlaylist launchers [p] 0,
         ConsoleLog ''All downloads completed!''],
      batch_result = Some (Inr JUndefined)\<rparr>"
proof -
  have started: "batch_started downloadPlaylist launchers [p] =
      \<lparr>item_traces = [snd (downloadPlaylist (launchers 0) p [])], settled_items = [],
       remaining = 1,
       batch_console = [ConsoleLog ''Starting download of 1 playlists...''],
       batch_result = None\<rparr>"
    by (simp add: batch_started_def console_log_def nat_to_string.simps digit_char_def)
  have "batch_after downloadPlaylist launchers [p] [0] =
      settle_item downloadPlaylist launchers [p] 0 (batch_started downloadPlaylist launchers [p])"
    by (simp add: batch_after_def)
  also have "\<dots> = \<lparr>item_traces = [snd (downloadPlaylist (launchers 0) p [])],
      settled_items = [0],
      remaining = 0,
      batch_console =
        [ConsoleLog ''Starting download of 1 playlists...'',
         item_line downloadPlaylist launchers [p] 0,
         ConsoleLog ''All downloads completed!''],
      batch_result = Some (Inr JUndefined)\<rparr>"
    unfolding started
    by (subst settle_item_pending) simp_all
  finally show ?thesis .
qed

text \<open>
  C3, as stated, fails on the basic playlist method: its \<^verbatim>\<open>'close'\<close> handler resolves for
  code 0 only, so a process that exits with code 1 makes \<open>YoutubeDownloader.downloadPlaylist\<close>
  reject after its one launch.
\<close>

theorem basic_playlist_exit_code_one_counterexample:
  \<open>basic_downloadPlaylist (exits_with 1) ''/d''
       \<lparr>playlistUrl = JStr ''u'', maxHeight = JUndefined, outputPath = JUndefined\<rparr> [] =
     (Inl (Error ''Download failed with code 1''),
      [Exec ''yt-dlp -f "bestvideo+bestaudio/best" -o "/d/%(playlist_title)s/%(playlist_index)s - %(title)s.%(ext)s" u''])\<close>
  by (simp add: basic_downloadPlaylist_eq exits_with_def basic_playlist_command_def
      basic_formatString_def downloadPath_def int_to_string_def nat_to_string.simps digit_char_def)

text \<open>
  C3, amended. When every process exits with code 1, a call with a URL behaves as follows.
  Where only code 0 resolves, the call rejects: \<open>YoutubeDownloader.downloadSingleVideo\<close>, the
  strict single-video method with a launcher in scope, launches three processes and reports
  exit code 1 of the third, and the basic \<open>downloadPlaylist\<close> rejects after its one launch,
  so that a batch built on it prints the failure line for the item. Where codes 0 and 1
  resolve, the call resolves after its first and only launch: the hardened
  \<open>downloadPlaylist\<close>, on which a batch prints the completion line, and the hardened
  \<open>downloadSingleVideo\<close>. Both batches resolve.
\<close>

theorem exit_code_one_by_close_handler:
  assumes one: "\<And>n. exit_code (l n) = Some 1"
    and video: "truthy (videoUrl v)"
    and playlist: "truthy (playlistUrl p)"
  shows
    "fst (YoutubeDownloader_downloadSingleVideo l basePath v []) =
       Inl (Error (''Download failed (attempt 3/3):'' @ newline @ ''Exit code: 1'' @ newline
              @ ''Error log: '' @ stderr_text (chunks (l 2))))
     \<and> length (launches (snd (YoutubeDownloader_downloadSingleVideo l basePath v []))) = 3
     \<and> basic_downloadPlaylist l basePath p [] =
       (Inl (Error ''Download failed with code 1''),
        Exec (basic_playlist_command basePath p) # map echo_event (chunks (l 0)))
     \<and> downloadMultiplePlaylists (\<lambda>l. basic_downloadPlaylist l basePath) (\<lambda>i. l) [0] (Array [p]) =
       \<lparr>item_traces = [Exec (basic_playlist_command basePath p) # map echo_event (chunks (l 0))],
        settled_items = [0],
        remaining = 0,
        batch_console =
          [ConsoleLog ''Starting download of 1 playlists...'',
           ConsoleError ''Playlist 1 failed: Download failed with code 1'',
           ConsoleLog ''All downloads completed!''],
        batch_result = Some (Inr JUndefined)\<rparr>
     \<and> YoutubePlaylistDownloader_downloadPlaylist l basePath p [] =
       (Inr (JStr ''Download completed with some videos''),
        ConsoleLog (''Debug: Starting download with command: ''
                      @ playlist_command playlist_hardened_defaultOptions basePath p)
        # Exec (playlist_command playlist_hardened_defaultOptions basePath p)
        # map echo_event (chunks (l 0)))
     \<and> downloadMultiplePlaylists (\<lambda>l. YoutubePlaylistDownloader_downloadPlaylist l basePath)
         (\<lambda>i. l) [0] (Array [p]) =
       \<lparr>item_traces =
          [ConsoleLog (''Debug: Starting download with command: ''
                         @ playlist_command playlist_hardened_defaultOptions basePath p)
           # Exec (playlist_command playlist_hardened_defaultOptions basePath p)
           # map echo_event (chunks (l 0))],
        settled_items = [0],
        remaining = 0,
        batch_console =
          [ConsoleLog ''Starting download of 1 playlists...'',
           ConsoleLog ''Playlist 1 completed successfully'',
           ConsoleLog ''All downloads completed!''],
        batch_result = Some (Inr JUndefined)\<rparr>
     \<and> fst (hardened_downloadSingleVideo l basePath v []) =
       Inr (JStr ''Download completed successfully'')
     \<and> launches (snd (hardened_downloadSingleVideo l basePath v [])) =
       [Exec (single_command single_hardened_defaultOptions basePath v)]"
proof -
  have not0: "\<And>n. n < 3 \<Longrightarrow> exit_code (l n) \<noteq> Some 0"
    by (simp add: one)
  have one_str: "int_to_string 1 = ''1''" and one_nat: "nat_to_string (Suc 0) = ''1''"
    by (simp_all add: int_to_string_def nat_to_string.simps digit_char_def)
  have c2: "code_to_string (exit_code (l 2)) = ''1''"
    by (simp add: one one_str)
  have a: "fst (YoutubeDownloader_downloadSingleVideo l basePath v []) =
       Inl (Error (''Download failed (attempt 3/3):'' @ newline @ ''Exit code: 1'' @ newline
              @ ''Error log: '' @ stderr_text (chunks (l 2))))"
    using video
    by (simp add: YoutubeDownloader_downloadSingleVideo_def strict_downloadSingleVideo_def
        strict_all_fail(1) [OF not0] console_log_def c2)
  have "timeline (snd (YoutubeDownloader_downloadSingleVideo l basePath v [])) =
       [Exec (single_command base_defaultOptions basePath v), Sleep 2000,
        Exec (single_command base_defaultOptions basePath v), Sleep 2000,
        Exec (single_command base_defaultOptions basePath v)]"
    using video
    by (simp add: YoutubeDownloader_downloadSingleVideo_def strict_downloadSingleVideo_def
        strict_all_fail(2) [OF not0] console_log_def)
  then have "filter is_exec (timeline (snd (YoutubeDownloader_downloadSingleVideo l basePath v [])))
      = [Exec (single_command base_defaultOptions basePath v),
         Exec (single_command base_defaultOptions basePath v),
         Exec (single_command base_defaultOptions basePath v)]"
    by simp
  moreover have "filter is_exec (timeline t) = launches t" for t
    by (induction t) (auto simp add: timeline_def launches_def elim: is_console.elims)
  ultimately have b:
    "length (launches (snd (YoutubeDownloader_downloadSingleVideo l basePath v []))) = 3"
    by simp
  have c: "basic_downloadPlaylist l basePath p [] =
       (Inl (Error ''Download failed with code 1''),
        Exec (basic_playlist_command basePath p) # map echo_event (chunks (l 0)))"
    using playlist by (simp add: basic_downloadPlaylist_eq one one_str)
  have d: "downloadMultiplePlaylists (\<lambda>l. basic_downloadPlaylist l basePath) (\<lambda>i. l) [0]
        (Array [p]) =
       \<lparr>item_traces = [Exec (basic_playlist_command basePath p) # map echo_event (chunks (l 0))],
        settled_items = [0],
        remaining = 0,
        batch_console =
          [ConsoleLog ''Starting download of 1 playlists...'',
           ConsoleError ''Playlist 1 failed: Download failed with code 1'',
           ConsoleLog ''All downloads completed!''],
        batch_result = Some (Inr JUndefined)\<rparr>"
    by (simp add: downloadMultiplePlaylists_def single_item_batch item_line_def c one_nat)
  have e: "YoutubePlaylistDownloader_downloadPlaylist l basePath p [] =
       (Inr (JStr ''Download completed with some videos''),
        ConsoleLog (''Debug: Starting download with command: ''
                      @ playlist_command playlist_hardened_defaultOptions basePath p)
        # Exec (playlist_command playlist_hardened_defaultOptions basePath p)
        # map echo_event (chunks (l 0)))"
    using playlist
    by (simp add: YoutubePlaylistDownloader_downloadPlaylist_def hardened_first_accepted one
        console_log_def)
  have f: "downloadMultiplePlaylists (\<lambda>l. YoutubePlaylistDownloader_downloadPlaylist l basePath)
         (\<lambda>i. l) [0] (Array [p]) =
       \<lparr>item_traces =
          [ConsoleLog (''Debug: Starting download with command: ''
                         @ playlist_command playlist_hardened_defaultOptions basePath p)
           # Exec (playlist_command playlist_hardened_defaultOptions basePath p)
           # map echo_event (chunks (l 0))],
        settled_items = [0],
        remaining = 0,
        batch_console =
          [ConsoleLog ''Starting download of 1 playlists...'',
           ConsoleLog ''Playlist 1 completed successfully'',
           ConsoleLog ''All downloads completed!''],
        batch_result = Some (Inr JUndefined)\<rparr>"
    by (simp add: downloadMultiplePlaylists_def single_item_batch item_line_def e one_nat)
  have g: "hardened_downloadSingleVideo l basePath v [] =
       (Inr (JStr ''Download completed successfully''),
        [ConsoleLog (''Starting download for video: '' @ to_string (videoUrl v)),
         ConsoleLog (''Debug: Starting download with command: ''
                      @ single_command single_hardened_defaultOptions basePath v),
         Exec (single_command single_hardened_defaultOptions basePath v)]
        @ map echo_event (chunks (l 0)))"
    using video
    by (simp add: hardened_downloadSingleVideo_def hardened_first_accepted one console_log_def)
  from a b c d e f g show ?thesis by simp
qed

theorem exit_code_one_by_close_handler_witness:
  "fst (YoutubeDownloader_downloadSingleVideo
          (\<lambda>n. \<lparr>chunks = [Stderr ''ERROR: unavailable''], exit_code = Some 1\<rparr>) ''/d''
          \<lparr>videoUrl = JStr ''u'', maxHeight = JUndefined, outputPath = JUndefined\<rparr> []) =
     Inl (Error (''Download failed (attempt 3/3):'' @ newline @ ''Exit code: 1'' @ newline
            @ ''Error log: ERROR: unavailable''))
   \<and> fst (basic_downloadPlaylist
          (\<lambda>n. \<lparr>chunks = [Stderr ''ERROR: unavailable''], exit_code = Some 1\<rparr>) ''/d''
          \<lparr>playlistUrl = JStr ''u'', maxHeight = JUndefined, outputPath = JUndefined\<rparr> []) =
     Inl (Error ''Download failed with code 1'')
   \<and> fst (YoutubePlaylistDownloader_downloadPlaylist
          (\<lambda>n. \<lparr>chunks = [Stderr ''ERROR: unavailable''], exit_code = Some 1\<rparr>) ''/d''
          \<lparr>playlistUrl = JStr ''u'', maxHeight = JUndefined, outputPath = JUndefined\<rparr> []) =
     Inr (JStr ''Download completed with some videos'')"
  using exit_code_one_by_close_handler
    [where l = "\<lambda>n. \<lparr>chunks = [Stderr ''ERROR: unavailable''], exit_code = Some 1\<rparr>"
       and basePath = "''/d''"
       and v = "\<lparr>videoUrl = JStr ''u'', maxHeight = JUndefined, outputPath = JUndefined\<rparr>"
       and p = "\<lparr>playlistUrl = JStr ''u'', maxHeight = JUndefined, outputPath = JUndefined\<rparr>"]
  by simp

end
